theory Spec2Isabelle
  imports Complex_Main "HOL-Library.Sublist" "HOL-Library.Multiset"
begin

section \<open>JavaScript strings\<close>

text \<open>
  A JavaScript string is modelled as a \<open>string\<close>: one \<open>char\<close> per code unit, for
  code units below 256. The functions of this section are the library functions the
  crash reporter calls on strings (\<open>indexOf\<close>, \<open>slice(0, pos)\<close>, \<open>trim\<close>) and the
  pieces of its two regular expressions.
\<close>

definition isLineTerminator :: "char \<Rightarrow> bool" where
  "isLineTerminator c = (c = CHR 0x0A \<or> c = CHR 0x0D)"

definition isWhiteSpace :: "char \<Rightarrow> bool" where
  "isWhiteSpace c =
     (c = CHR 0x09 \<or> c = CHR 0x0A \<or> c = CHR 0x0B \<or> c = CHR 0x0C \<or> c = CHR 0x0D
      \<or> c = CHR 0x20 \<or> c = CHR 0xA0)"

text \<open>\<open>s.indexOf(pat)\<close>: the first index at which \<open>pat\<close> occurs; \<open>None\<close> stands for -1.\<close>

fun indexOf :: "string \<Rightarrow> string \<Rightarrow> nat option" where
  "indexOf pat [] = (if pat = [] then Some 0 else None)"
| "indexOf pat (c # cs) =
     (if prefix pat (c # cs) then Some 0 else map_option Suc (indexOf pat cs))"

text \<open>\<open>s.trim()\<close>: white space and line terminators removed at both ends.\<close>

definition trim :: "string \<Rightarrow> string" where
  "trim s = rev (dropWhile isWhiteSpace (rev (dropWhile isWhiteSpace s)))"

text \<open>Decimal numerals, for the template literal of \<open>generatePayload\<close>.\<close>

definition digit :: "nat \<Rightarrow> char" where
  "digit n = char_of (48 + n mod 10)"

function showNat :: "nat \<Rightarrow> string" where
  "showNat n = (if n < 10 then [digit n] else showNat (n div 10) @ [digit n])"
  by pat_completeness auto
termination
  by (relation "measure id") auto

definition showInt :: "int \<Rightarrow> string" where
  "showInt i = (if i < 0 then CHR ''-'' # showNat (nat (- i)) else showNat (nat i))"

definition showNumber :: "int option \<Rightarrow> string" where
  "showNumber n = (case n of None \<Rightarrow> ''null'' | Some i \<Rightarrow> showInt i)"

subsection \<open>Backtracking regular expressions\<close>

text \<open>
  A matcher takes the rest of the input and a continuation for what follows it in the
  pattern; it answers \<open>Some\<close> for the first match in the order a backtracking engine
  tries them. A greedy star consumes a character and tries the rest before it tries
  to stop.
\<close>

definition orElse :: "'a option \<Rightarrow> 'a option \<Rightarrow> 'a option" where
  "orElse a b = (case a of Some r \<Rightarrow> Some r | None \<Rightarrow> b)"

definition lit :: "string \<Rightarrow> (string \<Rightarrow> 'a option) \<Rightarrow> string \<Rightarrow> 'a option" where
  "lit p k s = (if prefix p s then k (drop (length p) s) else None)"

text \<open>\<open>.*\<close> followed by \<open>k\<close>: the dot matches everything but a line terminator.\<close>

fun dotStar :: "(string \<Rightarrow> 'a option) \<Rightarrow> string \<Rightarrow> 'a option" where
  "dotStar k [] = k []"
| "dotStar k (c # cs) =
     (if isLineTerminator c then k (c # cs) else orElse (dotStar k cs) (k (c # cs)))"

text \<open>\<open>[^\.]*\<close> and \<open>[^\.]+\<close> followed by \<open>k\<close>.\<close>

fun notDotStar :: "(string \<Rightarrow> 'a option) \<Rightarrow> string \<Rightarrow> 'a option" where
  "notDotStar k [] = k []"
| "notDotStar k (c # cs) =
     (if c = CHR ''.'' then k (c # cs) else orElse (notDotStar k cs) (k (c # cs)))"

definition notDotPlus :: "(string \<Rightarrow> 'a option) \<Rightarrow> string \<Rightarrow> 'a option" where
  "notDotPlus k s =
     (case s of [] \<Rightarrow> None | c # cs \<Rightarrow> if c = CHR ''.'' then None else notDotStar k cs)"

text \<open>One character of the class \<open>\s\<close>, the end of the input (\<open>$\<close> without the
  multiline flag), and an unanchored search from every start position.\<close>

definition space :: "(string \<Rightarrow> 'a option) \<Rightarrow> string \<Rightarrow> 'a option" where
  "space k s = (case s of [] \<Rightarrow> None | c # cs \<Rightarrow> if isWhiteSpace c then k cs else None)"

definition endOfInput :: "string \<Rightarrow> unit option" where
  "endOfInput s = (if s = [] then Some () else None)"

fun search :: "(string \<Rightarrow> 'a option) \<Rightarrow> string \<Rightarrow> 'a option" where
  "search m [] = m []"
| "search m (c # cs) = orElse (m (c # cs)) (search m cs)"

section \<open>Stack frames\<close>

text \<open>
  \<open>StackFrame\<close> of React Native's \<open>parseErrorStack\<close>: \<open>file\<close> (here \<open>file'\<close>, since
  \<open>file\<close> is reserved), \<open>lineNumber\<close> and \<open>column\<close> may be null.
\<close>

record StackFrame =
  file' :: "string option"
  methodName :: string
  lineNumber :: "int option"
  column :: "int option"

definition SOURCE_MAP_PREFIX :: string where
  "SOURCE_MAP_PREFIX = ''file://reactnative.local/''"

text \<open>
  \<^verbatim>\<open>/^(.*@)?.*\/[^\.]+(\.app|CodePush)\/?(.*)/\<close>: the result is the third group,
  the only one \<open>cleanFilePath\<close> reads.
\<close>

definition fileNameGroup :: "string \<Rightarrow> string option" where
  "fileNameGroup s = Some (takeWhile (\<lambda>c. \<not> isLineTerminator c) s)"

definition afterBundle :: "string \<Rightarrow> string option" where
  "afterBundle s = orElse (lit ''/'' fileNameGroup s) (fileNameGroup s)"

definition devicePath :: "string \<Rightarrow> string option" where
  "devicePath s =
     dotStar (lit ''/'' (notDotPlus
       (\<lambda>r. orElse (lit ''.app'' afterBundle r) (lit ''CodePush'' afterBundle r)))) s"

definition devicePathPattern :: "string \<Rightarrow> string option" where
  "devicePathPattern s = orElse (dotStar (lit ''@'' devicePath) s) (devicePath s)"

text \<open>\<open>RegExp.exec\<close> converts its argument to a string: \<open>null\<close> is matched as "null".\<close>

definition execDevicePathPattern :: "string option \<Rightarrow> string option" where
  "execDevicePathPattern f =
     devicePathPattern (case f of None \<Rightarrow> ''null'' | Some s \<Rightarrow> s)"

text \<open>
  \<^verbatim>\<open>new RegExp('ReactNativeRenderer-dev\\.js$|MessageQueue\\.js$|native\\scode')\<close>
\<close>

definition internalTrace :: "string \<Rightarrow> bool" where
  "internalTrace s =
     (search (\<lambda>r. orElse (lit ''ReactNativeRenderer-dev.js'' endOfInput r)
                  (orElse (lit ''MessageQueue.js'' endOfInput r)
                     (lit ''native'' (space (lit ''code'' (\<lambda>_. Some ()))) r))) s \<noteq> None)"

definition filterOutReactFrames :: "StackFrame \<Rightarrow> bool" where
  "filterOutReactFrames frame =
     (case file' frame of
        None \<Rightarrow> False
      | Some f \<Rightarrow> f \<noteq> [] \<and> \<not> internalTrace f)"

definition noAddressAt :: "StackFrame \<Rightarrow> StackFrame" where
  "noAddressAt frame =
     frame\<lparr>methodName :=
       (case indexOf ''(address at'' (methodName frame) of
          Some pos \<Rightarrow> trim (take pos (methodName frame))
        | None \<Rightarrow> methodName frame)\<rparr>"

definition cleanFilePath :: "StackFrame list \<Rightarrow> StackFrame list" where
  "cleanFilePath frames =
     map (\<lambda>frame.
            case execDevicePathPattern (file' frame) of
              Some fileName \<Rightarrow> frame\<lparr>file' := Some (SOURCE_MAP_PREFIX @ fileName)\<rparr>
            | None \<Rightarrow> frame)
         frames"

section \<open>JavaScript values and objects\<close>

text \<open>
  The values the session carries are dynamically typed: the user, the breadcrumbs and
  the custom data are plain objects. An object is its list of properties in insertion
  order, with unique keys. Numbers are real numbers (no NaN, no infinities, no
  rounding).
\<close>

datatype jsval =
    JUndefined
  | JNull
  | JBool bool
  | JNum real
  | JStr string
  | JArr "jsval list"
  | JObj "(string \<times> jsval) list"

type_synonym obj = "(string \<times> jsval) list"

datatype js_error = TypeError | JsError string | NativeFailure | Rejected

fun truthy :: "jsval \<Rightarrow> bool" where
  "truthy JUndefined = False"
| "truthy JNull = False"
| "truthy (JBool b) = b"
| "truthy (JNum n) = (n \<noteq> 0)"
| "truthy (JStr s) = (s \<noteq> [])"
| "truthy (JArr xs) = True"
| "truthy (JObj kvs) = True"

text \<open>
  \<open>o[k]\<close> and \<open>o[k] = v\<close>: a new key goes to the end, a known key keeps its place.
  (JavaScript enumerates keys that are array indices before all others; the keys of
  the session's objects are names, and nothing below depends on the order of keys.)
\<close>

definition getProp :: "obj \<Rightarrow> string \<Rightarrow> jsval" where
  "getProp ob k = (case map_of ob k of None \<Rightarrow> JUndefined | Some v \<Rightarrow> v)"

fun setProp :: "string \<Rightarrow> jsval \<Rightarrow> obj \<Rightarrow> obj" where
  "setProp k v [] = [(k, v)]"
| "setProp k v ((k', v') # ps) =
     (if k' = k then (k, v) # ps else (k', v') # setProp k v ps)"

text \<open>\<open>Object.assign(target, source)\<close>, also the object spread \<open>{...target, ...source}\<close>.\<close>

definition assign :: "obj \<Rightarrow> obj \<Rightarrow> obj" where
  "assign target source = fold (\<lambda>(k, v). setProp k v) source target"

text \<open>A \<open>Set\<close> of strings keeps its members in insertion order.\<close>

definition setAdd :: "string \<Rightarrow> string list \<Rightarrow> string list" where
  "setAdd t xs = (if t \<in> set xs then xs else xs @ [t])"

text \<open>
  \<open>clone\<close> is \<^verbatim>\<open>JSON.parse(JSON.stringify(object))\<close>: a property whose value is
  \<open>undefined\<close> is left out, an \<open>undefined\<close> array element becomes \<open>null\<close>.
\<close>

fun cloneVal :: "jsval \<Rightarrow> jsval"
  and cloneElems :: "jsval list \<Rightarrow> jsval list"
  and cloneProps :: "obj \<Rightarrow> obj" where
  "cloneVal (JArr xs) = JArr (cloneElems xs)"
| "cloneVal (JObj kvs) = JObj (cloneProps kvs)"
| "cloneVal JUndefined = JUndefined"
| "cloneVal JNull = JNull"
| "cloneVal (JBool b) = JBool b"
| "cloneVal (JNum n) = JNum n"
| "cloneVal (JStr s) = JStr s"
| "cloneElems [] = []"
| "cloneElems (x # xs) = (if x = JUndefined then JNull else cloneVal x) # cloneElems xs"
| "cloneProps [] = []"
| "cloneProps ((k, v) # kvs) =
     (if v = JUndefined then cloneProps kvs else (k, cloneVal v) # cloneProps kvs)"

definition clone :: "obj \<Rightarrow> obj" where
  "clone object = cloneProps object"

text \<open>
  \<open>key.slice(0, 1).toUpperCase() + key.slice(1)\<close>, for keys that start with an ASCII
  character (the session's field names do).
\<close>

definition toUpperCase :: "char \<Rightarrow> char" where
  "toUpperCase c =
     (if 97 \<le> (of_char c :: nat) \<and> (of_char c :: nat) \<le> 122
      then char_of ((of_char c :: nat) - 32) else c)"

definition capitalize :: "string \<Rightarrow> string" where
  "capitalize key = (case key of [] \<Rightarrow> [] | c # cs \<Rightarrow> toUpperCase c # cs)"

text \<open>
  \<open>upperFirst\<close>: arrays are mapped, objects are rebuilt with capitalized keys, the
  value under \<open>customData\<close> is kept as it is. \<open>typeof null\<close> is \<open>'object'\<close>, and
  \<open>Object.entries(null)\<close> throws. \<open>upperFirstEntries\<close> is the \<open>reduce\<close>, with its
  accumulator \<open>all\<close>.
\<close>

fun upperFirst :: "jsval \<Rightarrow> js_error + jsval"
  and upperFirstElems :: "jsval list \<Rightarrow> js_error + jsval list"
  and upperFirstEntries :: "obj \<Rightarrow> obj \<Rightarrow> js_error + obj" where
  "upperFirst (JArr xs) =
     (case upperFirstElems xs of Inl e \<Rightarrow> Inl e | Inr ys \<Rightarrow> Inr (JArr ys))"
| "upperFirst (JObj kvs) =
     (case upperFirstEntries kvs [] of Inl e \<Rightarrow> Inl e | Inr ob \<Rightarrow> Inr (JObj ob))"
| "upperFirst JNull = Inl TypeError"
| "upperFirst JUndefined = Inr JUndefined"
| "upperFirst (JBool b) = Inr (JBool b)"
| "upperFirst (JNum n) = Inr (JNum n)"
| "upperFirst (JStr s) = Inr (JStr s)"
| "upperFirstElems [] = Inr []"
| "upperFirstElems (x # xs) =
     (case upperFirst x of
        Inl e \<Rightarrow> Inl e
      | Inr y \<Rightarrow> (case upperFirstElems xs of Inl e \<Rightarrow> Inl e | Inr ys \<Rightarrow> Inr (y # ys)))"
| "upperFirstEntries [] all = Inr all"
| "upperFirstEntries ((key, val) # es) all =
     (if key \<noteq> ''customData''
      then (case upperFirst val of
              Inl e \<Rightarrow> Inl e
            | Inr v \<Rightarrow> upperFirstEntries es (setProp (capitalize key) v all))
      else upperFirstEntries es (setProp ''CustomData'' val all))"

section \<open>The crash report\<close>

text \<open>
  The object literal \<open>generatePayload\<close> returns. \<open>UserCustomData\<close> is the session's
  custom-data object itself, so the record is polymorphic in it: an address of the
  store while the payload is an object in memory, the properties of that object once
  \<open>JSON.stringify\<close> has read them. The \<open>ClassName\<close> of a stack-trace line is
  \<open>LineClassName\<close> here, since \<open>ClassName\<close> is also a field of \<open>Error\<close>.
\<close>

type_synonym addr = nat

record TraceLine =
  FileName :: "string option"
  MethodName :: string
  LineNumber :: "int option"
  ColumnNumber :: "int option"
  LineClassName :: string

record ErrorInfo =
  ClassName :: string
  Message :: string
  StackTrace :: "TraceLine list"
  StackString :: string

record 'c Details =
  Error :: ErrorInfo
  Environment :: obj
  Client :: obj
  UserCustomData :: 'c
  Tags :: "string list"
  User :: jsval
  Breadcrumbs :: jsval
  Version :: string

record 'c CrashReportPayload =
  OccurredOn :: int
  Details :: "'c Details"

text \<open>
  What a before-send handler does with the payload it is given: the writes it attempts,
  in order, and its answer (a value, or an exception). \<open>SetProperty\<close> is an assignment
  to a property of the payload object itself (\<open>payload.Details = ...\<close>), \<open>SetNested\<close> a
  write to the \<open>Details\<close> object or to an object below it
  (\<open>payload.Details.Error.Message = ...\<close>).
\<close>

datatype mutation =
    SetProperty "addr CrashReportPayload \<Rightarrow> addr CrashReportPayload"
  | SetNested "addr Details \<Rightarrow> addr Details"

record filterRun =
  writes :: "mutation list"
  answer :: "js_error + jsval"

text \<open>
  \<open>Object.freeze(payload)\<close> freezes the payload object, not the objects its properties
  refer to: an assignment to one of its own properties does not take place (in strict
  code it also throws, which is then the handler's answer), a write below \<open>Details\<close>
  does.
\<close>

fun frozenWrite :: "mutation \<Rightarrow> addr CrashReportPayload \<Rightarrow> addr CrashReportPayload" where
  "frozenWrite (SetProperty g) payload = payload"
| "frozenWrite (SetNested g) payload = payload\<lparr>Details := g (Details payload)\<rparr>"

datatype beforeSend =
    NotSet
  | NotAFunction
  | Handler "addr CrashReportPayload \<Rightarrow> filterRun"

record RaygunClientOptions =
  apiKey :: string
  version :: string
  enableNative :: bool
  enableRUM :: bool
  enableNetworkMonitoring :: bool
  ignoreURLs :: "string list"
  onBeforeSend :: beforeSend

section \<open>Collaborators\<close>

text \<open>
  Every call the module makes to the native bridge \<open>Rg4rn\<close>, to the direct transport
  and to the console is appended to the state's \<open>calls\<close>.
\<close>

datatype call =
    Rg4rn_init
  | Rg4rn_setTags "string list"
  | Rg4rn_setUser obj
  | Rg4rn_setCustomData obj
  | Rg4rn_recordBreadcrumb obj
  | Rg4rn_getEnvironmentInfo
  | Rg4rn_sendCrashReport "obj CrashReportPayload" string
  | sendCrashReport "addr CrashReportPayload" string
  | sendCachedReports string
  | console_log string

text \<open>
  The native module may be missing from \<open>NativeModules\<close> (\<open>Rg4rn\<close> is then
  \<open>undefined\<close>), it may lack \<open>init\<close> or \<open>getEnvironmentInfo\<close>, and a call of one of
  its methods may throw.
\<close>

record bridge =
  initIsFunction :: bool
  hasGetEnvironmentInfo :: bool
  fails :: "call \<Rightarrow> bool"

record world =
  OS :: string
  DEV :: bool
  Rg4rn :: "bridge option"
  uuidv4 :: "nat \<Rightarrow> string"
  clientVersion :: string

text \<open>What the collaborators answer while one error is processed.\<close>

record answers =
  parseErrorStack :: "StackFrame list"
  symbolicateStackTrace :: "js_error + StackFrame list option"
  getEnvironmentInfo :: "js_error + obj"
  now :: int
  getTimezoneOffset :: int
  transport :: "js_error option"

section \<open>The session and the module's state\<close>

text \<open>
  The session refers to three mutable objects: the \<open>Set\<close> of tags, the custom-data
  object and the breadcrumb array. They live in a store, so that two references to one
  object see each other's writes. The user object is never written to after it is
  built.
\<close>

record Session =
  tags :: addr
  customData :: addr
  breadcrumbs :: addr
  user :: obj

record state =
  sets :: "addr \<Rightarrow> string list"
  objs :: "addr \<Rightarrow> obj"
  arrs :: "addr \<Rightarrow> obj list"
  nextAddr :: addr
  curSession :: Session
  GlobalOptions :: "RaygunClientOptions option"
  canEnableNative :: bool
  calls :: "call list"
  uuidCalls :: nat

definition getCleanSession :: "state \<Rightarrow> Session \<times> state" where
  "getCleanSession s =
     (let a = nextAddr s in
      (\<lparr>tags = a, customData = a + 1, breadcrumbs = a + 2,
        user = [(''identifier'', JStr ''anonymous'')]\<rparr>,
       s\<lparr>sets := (sets s)(a := [''React Native'']),
         objs := (objs s)(a + 1 := []),
         arrs := (arrs s)(a + 2 := []),
         nextAddr := a + 3\<rparr>))"

text \<open>The module as it is loaded: \<open>GlobalOptions\<close> is not assigned yet.\<close>

definition emptyState :: state where
  "emptyState =
     \<lparr>sets = (\<lambda>_. []), objs = (\<lambda>_. []), arrs = (\<lambda>_. []), nextAddr = 0,
      curSession = \<lparr>tags = 0, customData = 0, breadcrumbs = 0, user = []\<rparr>,
      GlobalOptions = None, canEnableNative = False, calls = [], uuidCalls = 0\<rparr>"

definition loaded :: state where
  "loaded = (let (session, s) = getCleanSession emptyState in s\<lparr>curSession := session\<rparr>)"

text \<open>
  A call \<open>Rg4rn.method(...)\<close>: a \<open>TypeError\<close> when \<open>Rg4rn\<close> is undefined, else the call
  is made, and may throw. The first component is the exception that reaches the caller.
\<close>

definition nativeCall :: "world \<Rightarrow> call \<Rightarrow> state \<Rightarrow> js_error option \<times> state" where
  "nativeCall w c s =
     (case Rg4rn w of
        None \<Rightarrow> (Some TypeError, s)
      | Some b \<Rightarrow>
          (if fails b c then Some NativeFailure else None, s\<lparr>calls := calls s @ [c]\<rparr>))"

definition liveTags :: "state \<Rightarrow> string list" where
  "liveTags s = sets s (tags (curSession s))"

definition liveCustomData :: "state \<Rightarrow> obj" where
  "liveCustomData s = objs s (customData (curSession s))"

definition liveBreadcrumbs :: "state \<Rightarrow> obj list" where
  "liveBreadcrumbs s = arrs s (breadcrumbs (curSession s))"

subsection \<open>init\<close>

text \<open>
  \<open>init\<close>, as far as the module's own state goes: the options over their defaults,
  \<open>canEnableNative\<close>, the call of \<open>Rg4rn.init\<close> and the flush of the cached reports
  that it schedules. \<open>alreadyInitialized\<close> is what \<open>Rg4rn.hasInitialized()\<close> answers.
  The result is the value \<open>init\<close> resolves to.
\<close>

definition init :: "world \<Rightarrow> bool \<Rightarrow> RaygunClientOptions \<Rightarrow> state \<Rightarrow> (js_error + bool) \<times> state" where
  "init w alreadyInitialized options s =
     (let native = ((enableNative options \<or> enableRUM options)
                    \<and> (case Rg4rn w of None \<Rightarrow> False | Some b \<Rightarrow> initIsFunction b));
          s1 = s\<lparr>GlobalOptions := Some options, canEnableNative := native\<rparr>
      in if native \<and> alreadyInitialized
         then (Inr False, s1\<lparr>calls := calls s1 @ [console_log ''Already initialized'']\<rparr>)
         else if enableRUM options \<and> \<not> native
         then (Inl (JsError ''Can not enable RUM as native sdk not configured properly''), s1)
         else if native
         then (case nativeCall w Rg4rn_init s1 of
                 (Some e, s2) \<Rightarrow> (Inl e, s2)
               | (None, s2) \<Rightarrow> (Inr True, s2))
         else (Inr True, s1\<lparr>calls := calls s1 @ [sendCachedReports (apiKey options)]\<rparr>))"

subsection \<open>The session operations\<close>

text \<open>Each operation answers the exception it throws into its caller, if any, and
  the state it leaves.\<close>

definition addTag :: "world \<Rightarrow> string list \<Rightarrow> state \<Rightarrow> js_error option \<times> state" where
  "addTag w ts s =
     (let a = tags (curSession s);
          s1 = s\<lparr>sets := (sets s)(a := fold setAdd ts (sets s a))\<rparr>
      in if canEnableNative s1 then nativeCall w (Rg4rn_setTags (liveTags s1)) s1
         else (None, s1))"

datatype userArg = UString string | UObject obj | UUndefined

definition userDefaults :: obj where
  "userDefaults =
     [(''firstName'', JStr ''''), (''fullName'', JStr ''''), (''email'', JStr ''''),
      (''isAnonymous'', JBool False)]"

definition setUser :: "world \<Rightarrow> userArg \<Rightarrow> state \<Rightarrow> js_error option \<times> state" where
  "setUser w u s =
     (let (source, s1) =
            (case u of
               UString str \<Rightarrow>
                 if str \<noteq> [] then ([(''identifier'', JStr str)], s)
                 else ([(''identifier'', JStr (uuidv4 w (uuidCalls s))),
                        (''isAnonymous'', JBool True)],
                       s\<lparr>uuidCalls := uuidCalls s + 1\<rparr>)
             | UObject ob \<Rightarrow> (ob, s)
             | UUndefined \<Rightarrow> ([], s));
          userObj = assign userDefaults source
      in if canEnableNative s1
         then (case Rg4rn w of
                 None \<Rightarrow> (Some TypeError, s1)
               | Some b \<Rightarrow>
                   nativeCall w (Rg4rn_setUser userObj)
                     (s1\<lparr>curSession := (curSession s1)\<lparr>user := userObj\<rparr>\<rparr>))
         else (None, s1))"

definition addCustomData :: "world \<Rightarrow> obj \<Rightarrow> state \<Rightarrow> js_error option \<times> state" where
  "addCustomData w cd s =
     (let a = nextAddr s;
          merged = assign (assign [] (liveCustomData s)) cd;
          s1 = s\<lparr>objs := (objs s)(a := merged), nextAddr := a + 1,
                 curSession := (curSession s)\<lparr>customData := a\<rparr>\<rparr>
      in nativeCall w (Rg4rn_setCustomData (clone (liveCustomData s1))) s1)"

text \<open>
  An updater is handed the session's custom-data object. \<open>inputAfter\<close> is what it has
  made of that object when it returns; \<open>returned\<close> is \<open>None\<close> when it returns the
  object it was handed, and the new object otherwise.
\<close>

record updaterRun =
  inputAfter :: obj
  returned :: "obj option"

definition updateCustomData :: "world \<Rightarrow> (obj \<Rightarrow> updaterRun) \<Rightarrow> state \<Rightarrow> js_error option \<times> state" where
  "updateCustomData w updater s =
     (let a = customData (curSession s);
          run = updater (objs s a);
          s1 = s\<lparr>objs := (objs s)(a := inputAfter run)\<rparr>;
          s2 = (case returned run of
                  None \<Rightarrow> s1
                | Some ob \<Rightarrow>
                    s1\<lparr>objs := (objs s1)(nextAddr s1 := ob), nextAddr := nextAddr s1 + 1,
                       curSession := (curSession s1)\<lparr>customData := nextAddr s1\<rparr>\<rparr>)
      in if canEnableNative s2
         then nativeCall w (Rg4rn_setCustomData (clone (liveCustomData s2))) s2
         else (None, s2))"

definition recordBreadcrumb :: "world \<Rightarrow> int \<Rightarrow> string \<Rightarrow> obj option \<Rightarrow> state \<Rightarrow> js_error option \<times> state" where
  "recordBreadcrumb w time message details s =
     (let breadcrumb =
            assign
              (assign [(''customData'', JObj []), (''category'', JStr ''''),
                       (''level'', JStr ''info''), (''message'', JStr message)]
                 (case details of None \<Rightarrow> [] | Some d \<Rightarrow> d))
              [(''timestamp'', JNum (of_int time))];
          a = breadcrumbs (curSession s);
          s1 = s\<lparr>arrs := (arrs s)(a := arrs s a @ [breadcrumb])\<rparr>
      in if canEnableNative s1 then nativeCall w (Rg4rn_recordBreadcrumb breadcrumb) s1
         else (None, s1))"

definition clearSession :: "state \<Rightarrow> state" where
  "clearSession s = (let (session, s1) = getCleanSession s in s1\<lparr>curSession := session\<rparr>)"

section \<open>Building and delivering a report\<close>

text \<open>
  The value handed to the error handlers: \<open>None\<close> when it is null, undefined or another
  falsy value, else its \<open>name\<close>, \<open>message\<close> and \<open>stack\<close> (\<open>None\<close> when the property is
  undefined) and what its \<open>toString()\<close> answers.
\<close>

record ErrorObject =
  name :: "string option"
  message :: "string option"
  stack :: "string option"
  toString :: string

definition orEmpty :: "string option \<Rightarrow> string" where
  "orEmpty v = (case v of None \<Rightarrow> [] | Some x \<Rightarrow> x)"

text \<open>
  \<open>generatePayload\<close> first reads the four properties of the session it is given. On
  Android it then awaits \<open>Rg4rn.getEnvironmentInfo()\<close>, and only after that builds the
  object literal, reading the tag set and the breadcrumb array as they are by then.
\<close>

record captured =
  c_breadcrumbs :: addr
  c_tags :: addr
  c_user :: obj
  c_customData :: addr

definition capture :: "Session \<Rightarrow> captured" where
  "capture session =
     \<lparr>c_breadcrumbs = breadcrumbs session, c_tags = tags session,
      c_user = user session, c_customData = customData session\<rparr>"

definition environmentDetails :: "world \<Rightarrow> answers \<Rightarrow> state \<Rightarrow> (js_error + obj) \<times> state" where
  "environmentDetails w ans s =
     (if OS w = ''android''
      then (case Rg4rn w of
              None \<Rightarrow> (Inl TypeError, s)
            | Some b \<Rightarrow>
                if hasGetEnvironmentInfo b
                then (if fails b Rg4rn_getEnvironmentInfo then Inl NativeFailure
                      else getEnvironmentInfo ans,
                      s\<lparr>calls := calls s @ [Rg4rn_getEnvironmentInfo]\<rparr>)
                else (Inr [], s))
      else (Inr [], s))"

definition traceLine :: "StackFrame \<Rightarrow> TraceLine" where
  "traceLine frame =
     \<lparr>FileName = file' frame,
      MethodName = (if methodName frame \<noteq> [] then methodName frame else ''[anonymous]''),
      LineNumber = lineNumber frame,
      ColumnNumber = column frame,
      LineClassName =
        ''line '' @ showNumber (lineNumber frame) @ '', column '' @ showNumber (column frame)\<rparr>"

definition buildPayload ::
  "world \<Rightarrow> answers \<Rightarrow> ErrorObject \<Rightarrow> StackFrame list \<Rightarrow> captured \<Rightarrow> obj \<Rightarrow> state
     \<Rightarrow> js_error + addr CrashReportPayload" where
  "buildPayload w ans error stackFrames cap env s =
     (case upperFirst (JObj (c_user cap)) of
        Inl e \<Rightarrow> Inl e
      | Inr u \<Rightarrow>
          (case upperFirst (JArr (map JObj (arrs s (c_breadcrumbs cap)))) of
             Inl e \<Rightarrow> Inl e
           | Inr bs \<Rightarrow>
               (case GlobalOptions s of
                  None \<Rightarrow> Inl TypeError
                | Some options \<Rightarrow>
                    Inr \<lparr>OccurredOn = now ans,
                         Details =
                           \<lparr>Error =
                              \<lparr>ClassName = orEmpty (name error),
                               Message = orEmpty (message error),
                               StackTrace = map traceLine stackFrames,
                               StackString = toString error\<rparr>,
                            Environment =
                              assign [(''UtcOffset'', JNum (of_int (getTimezoneOffset ans) / 60))]
                                env,
                            Client =
                              [(''Name'', JStr (''raygun4reactnative.'' @ OS w)),
                               (''Version'', JStr (clientVersion w))],
                            UserCustomData = c_customData cap,
                            Tags = sets s (c_tags cap),
                            User = u,
                            Breadcrumbs = bs,
                            Version =
                              (if version options \<noteq> [] then version options
                               else ''Not supplied'')\<rparr>\<rparr>)))"

definition generatePayload ::
  "world \<Rightarrow> answers \<Rightarrow> ErrorObject \<Rightarrow> StackFrame list \<Rightarrow> Session \<Rightarrow> state
     \<Rightarrow> (js_error + addr CrashReportPayload) \<times> state" where
  "generatePayload w ans error stackFrames session s =
     (let cap = capture session in
      case environmentDetails w ans s of
        (Inl e, s1) \<Rightarrow> (Inl e, s1)
      | (Inr env, s1) \<Rightarrow> (buildPayload w ans error stackFrames cap env s1, s1))"

text \<open>\<open>JSON.stringify(payload)\<close> reads the custom-data object as it is when it runs.\<close>

definition stringify :: "state \<Rightarrow> addr CrashReportPayload \<Rightarrow> obj CrashReportPayload" where
  "stringify s payload =
     \<lparr>OccurredOn = OccurredOn payload,
      Details =
        \<lparr>Error = Error (Details payload),
         Environment = clone (Environment (Details payload)),
         Client = clone (Client (Details payload)),
         UserCustomData = clone (objs s (UserCustomData (Details payload))),
         Tags = Tags (Details payload),
         User = cloneVal (User (Details payload)),
         Breadcrumbs = cloneVal (Breadcrumbs (Details payload)),
         Version = Version (Details payload)\<rparr>\<rparr>"

text \<open>
  The normalization of the parsed frames in \<open>processUnhandledError\<close>. In
  \<^verbatim>\<open>cleanedStackFrames.stack || [].filter(filterOutReactFrames).map(noAddressAt)\<close>
  the member calls bind tighter than \<open>||\<close>: the filter and the map run on the empty
  array literal, and only when \<open>stack\<close> is falsy. An array is never falsy.
\<close>

definition cleanedStackFrames :: "world \<Rightarrow> answers \<Rightarrow> js_error + StackFrame list option" where
  "cleanedStackFrames w ans =
     (if DEV w then symbolicateStackTrace ans
      else Inr (Some (cleanFilePath (parseErrorStack ans))))"

definition normalizedStack :: "StackFrame list option \<Rightarrow> StackFrame list" where
  "normalizedStack cleaned =
     (case cleaned of
        Some frames \<Rightarrow> frames
      | None \<Rightarrow> map noAddressAt (filter filterOutReactFrames []))"

datatype result =
    Dropped
  | Failed js_error
  | Skipped "addr CrashReportPayload"
  | Sent "addr CrashReportPayload"

definition malformed :: "ErrorObject option \<Rightarrow> bool" where
  "malformed error =
     (case error of None \<Rightarrow> True | Some e \<Rightarrow> orEmpty (stack e) = [])"

definition deliver :: "world \<Rightarrow> answers \<Rightarrow> addr CrashReportPayload \<Rightarrow> state \<Rightarrow> result \<times> state" where
  "deliver w ans payload s =
     (case GlobalOptions s of
        None \<Rightarrow> (Failed TypeError, s)
      | Some options \<Rightarrow>
          if canEnableNative s
          then (case nativeCall w (Rg4rn_sendCrashReport (stringify s payload) (apiKey options)) s of
                  (Some e, s1) \<Rightarrow> (Failed e, s1)
                | (None, s1) \<Rightarrow> (Sent payload, s1))
          else (case transport ans of
                  Some e \<Rightarrow> Failed e
                | None \<Rightarrow> Sent payload,
                s\<lparr>calls := calls s @ [sendCrashReport payload (apiKey options)]\<rparr>))"

text \<open>
  The before-send step: \<open>shouldSkip\<close> is computed from the configured handler's answer
  on the frozen payload; the payload object that goes on is the one the handler has
  written to.
\<close>

definition filterAndDeliver :: "world \<Rightarrow> answers \<Rightarrow> addr CrashReportPayload \<Rightarrow> state \<Rightarrow> result \<times> state" where
  "filterAndDeliver w ans payload s =
     (case GlobalOptions s of
        None \<Rightarrow> (Failed TypeError, s)
      | Some options \<Rightarrow>
          (case onBeforeSend options of
             Handler f \<Rightarrow>
               (let run = f payload;
                    payload' = fold frozenWrite (writes run) payload
                in case answer run of
                     Inl e \<Rightarrow> (Failed e, s)
                   | Inr v \<Rightarrow> if \<not> truthy v then (Skipped payload', s)
                             else deliver w ans payload' s)
           | NotAFunction \<Rightarrow> deliver w ans payload s
           | NotSet \<Rightarrow> deliver w ans payload s))"

definition addFatal :: "bool \<Rightarrow> state \<Rightarrow> state" where
  "addFatal isFatal s =
     (if isFatal
      then s\<lparr>sets := (sets s)(tags (curSession s) := setAdd ''Fatal'' (liveTags s))\<rparr>
      else s)"

definition processUnhandledError ::
  "world \<Rightarrow> answers \<Rightarrow> ErrorObject option \<Rightarrow> bool \<Rightarrow> state \<Rightarrow> result \<times> state" where
  "processUnhandledError w ans error isFatal s =
     (case error of
        None \<Rightarrow> (Dropped, s\<lparr>calls := calls s @ [console_log ''Unrecognized error occurred'']\<rparr>)
      | Some e \<Rightarrow>
          if orEmpty (stack e) = []
          then (Dropped, s\<lparr>calls := calls s @ [console_log ''Unrecognized error occurred'']\<rparr>)
          else (case cleanedStackFrames w ans of
                  Inl x \<Rightarrow> (Failed x, s)
                | Inr cleaned \<Rightarrow>
                    (let s1 = addFatal isFatal s in
                     case generatePayload w ans e (normalizedStack cleaned) (curSession s1) s1 of
                       (Inl x, s2) \<Rightarrow> (Failed x, s2)
                     | (Inr payload, s2) \<Rightarrow> filterAndDeliver w ans payload s2)))"

definition processUnhandledRejection ::
  "world \<Rightarrow> answers \<Rightarrow> ErrorObject option \<Rightarrow> state \<Rightarrow> result \<times> state" where
  "processUnhandledRejection w ans error s = processUnhandledError w ans error False s"

section \<open>RaygunClient\<close>

text \<open>
  The public client of \<open>RaygunClient.ts\<close>. Its collaborators (\<open>CrashReporter\<close>,
  \<open>RealUserMonitor\<close>, \<open>RaygunNativeBridge\<close>, \<open>Utils\<close>) are not part of it: every call
  to one of them is appended to \<open>clientCalls\<close>. \<open>crashReporter\<close> and \<open>realUserMonitor\<close>
  say whether the object has been constructed. The options are kept as they were
  passed (\<open>options = {...raygunClientOptions}\<close>), a missing flag reads as false;
  \<open>apiKey'\<close> and \<open>version'\<close> are the options \<open>apiKey\<close> and \<open>version\<close>.
\<close>

record ClientOptions =
  apiKey' :: string
  version' :: string
  enableCrashReporting :: bool
  disableNativeCrashReporting :: bool
  enableRealUserMonitoring :: bool
  customCrashReportingEndpoint :: string

datatype clientCall =
    log string
  | warn string
  | Utils_getDeviceBasedId
  | CrashReporter_new
  | RealUserMonitor_new
  | crashReporter_addTags "string list"
  | crashReporter_setUser obj
  | crashReporter_recordBreadcrumb string "obj option"
  | crashReporter_addCustomData jsval
  | crashReporter_updateCustomData "obj \<Rightarrow> obj"
  | crashReporter_setMaxReportsStoredOnDevice int
  | crashReporter_processUnhandledError "ErrorObject option"
  | realUserMonitor_setUser obj
  | realUserMonitor_sendCustomRUMEvent string string int
  | RaygunNativeBridge_initCrashReportingNativeSupport string string string
  | RaygunNativeBridge_initRealUserMonitoringNativeSupport
  | RaygunNativeBridge_setTags "string list"
  | RaygunNativeBridge_setUser obj

record clientWorld =
  RaygunNativeBridge :: bool
  getDeviceBasedId :: string

record client =
  initialized :: bool
  currentTags :: "string list"
  currentUser :: obj
  options :: "ClientOptions option"
  crashReporter :: bool
  realUserMonitor :: bool
  clientCalls :: "clientCall list"

definition emit :: "clientCall \<Rightarrow> client \<Rightarrow> client" where
  "emit e c = c\<lparr>clientCalls := clientCalls c @ [e]\<rparr>"

text \<open>The module as it is loaded.\<close>

definition clientLoaded :: "clientWorld \<Rightarrow> client" where
  "clientLoaded cw =
     \<lparr>initialized = False, currentTags = [],
      currentUser = [(''identifier'', JStr (''anonymous-'' @ getDeviceBasedId cw)),
                     (''isAnonymous'', JBool True)],
      options = None, crashReporter = False, realUserMonitor = False,
      clientCalls = [Utils_getDeviceBasedId]\<rparr>"

text \<open>A call \<open>RaygunNativeBridge.method(...)\<close>: a \<open>TypeError\<close> when the native module
  is missing.\<close>

definition bridgeCall :: "clientWorld \<Rightarrow> clientCall \<Rightarrow> client \<Rightarrow> js_error option \<times> client" where
  "bridgeCall cw e c = (if RaygunNativeBridge cw then (None, emit e c) else (Some TypeError, c))"

definition clientInit :: "clientWorld \<Rightarrow> ClientOptions \<Rightarrow> client \<Rightarrow> (js_error + bool) \<times> client" where
  "clientInit cw raygunClientOptions c =
     (if initialized c then (Inr False, emit (log ''Already initialized'') c)
      else
        (let c1 = c\<lparr>options := Some raygunClientOptions\<rparr>;
             (e2, c2) =
               (if enableCrashReporting raygunClientOptions
                then (let c' = emit CrashReporter_new (c1\<lparr>crashReporter := True\<rparr>) in
                      if \<not> disableNativeCrashReporting raygunClientOptions
                      then bridgeCall cw
                             (RaygunNativeBridge_initCrashReportingNativeSupport
                                (apiKey' raygunClientOptions) (version' raygunClientOptions)
                                (customCrashReportingEndpoint raygunClientOptions))
                             (emit (log ''Native Bridge Initialized'') c')
                      else (None, c'))
                else (None, c1))
         in case e2 of
              Some e \<Rightarrow> (Inl e, c2)
            | None \<Rightarrow>
                (let (e3, c3) =
                       (if enableRealUserMonitoring raygunClientOptions
                        then bridgeCall cw RaygunNativeBridge_initRealUserMonitoringNativeSupport
                               (emit RealUserMonitor_new (c2\<lparr>realUserMonitor := True\<rparr>))
                        else (None, c2))
                 in case e3 of
                      Some e \<Rightarrow> (Inl e, c3)
                    | None \<Rightarrow> (Inr True, c3\<lparr>initialized := True\<rparr>))))"

definition notInitialisedWarning :: "string \<Rightarrow> string" where
  "notInitialisedWarning calledFrom =
     ''Failed: \"'' @ calledFrom @
     ''\" cannot be called before initialising RaygunClient. Please call RaygunClient.init(...) before trying to call RaygunClient.''
     @ calledFrom @ ''(...)''"

definition crashReportingDisabledWarning :: "string \<Rightarrow> string" where
  "crashReportingDisabledWarning calledFrom =
     ''Failed: \"'' @ calledFrom @
     ''\" cannot be called unless Crash Reporting has been enabled, please ensure that you set \"enableCrashReporting\" to true during RaygunClient.init(...)''"

definition realUserMonitoringDisabledWarning :: "string \<Rightarrow> string" where
  "realUserMonitoringDisabledWarning calledFrom =
     ''Failed: \"'' @ calledFrom @
     ''\" cannot be called unless Real User Monitoring has been enabled, please ensure that you set \"enableRealUserMonitoring\" to true during RaygunClient.init(...)''"

text \<open>
  The two guards. \<open>crashReporter && options.enableCrashReporting\<close> reads \<open>options\<close>
  only when the crash reporter exists.
\<close>

definition crashReportingAvailable :: "string \<Rightarrow> client \<Rightarrow> (js_error + bool) \<times> client" where
  "crashReportingAvailable calledFrom c =
     (if \<not> initialized c then (Inr False, emit (warn (notInitialisedWarning calledFrom)) c)
      else if \<not> crashReporter c
      then (Inr False, emit (warn (crashReportingDisabledWarning calledFrom)) c)
      else (case options c of
              None \<Rightarrow> (Inl TypeError, c)
            | Some ops \<Rightarrow>
                if enableCrashReporting ops then (Inr True, c)
                else (Inr False, emit (warn (crashReportingDisabledWarning calledFrom)) c)))"

definition realUserMonitoringAvailable :: "string \<Rightarrow> client \<Rightarrow> (js_error + bool) \<times> client" where
  "realUserMonitoringAvailable calledFrom c =
     (if \<not> initialized c then (Inr False, emit (warn (notInitialisedWarning calledFrom)) c)
      else if \<not> realUserMonitor c
      then (Inr False, emit (warn (realUserMonitoringDisabledWarning calledFrom)) c)
      else (case options c of
              None \<Rightarrow> (Inl TypeError, c)
            | Some ops \<Rightarrow>
                if enableRealUserMonitoring ops then (Inr True, c)
                else (Inr False, emit (warn (realUserMonitoringDisabledWarning calledFrom)) c)))"

text \<open>\<open>if (guard(name)) action\<close>: the action is a call to a collaborator.\<close>

definition whenAvailable ::
  "(js_error + bool) \<times> client \<Rightarrow> clientCall \<Rightarrow> js_error option \<times> client" where
  "whenAvailable guard e =
     (case guard of
        (Inl x, c) \<Rightarrow> (Some x, c)
      | (Inr True, c) \<Rightarrow> (None, emit e c)
      | (Inr False, c) \<Rightarrow> (None, c))"

text \<open>The tail of \<open>addTag\<close> and \<open>setUser\<close>: \<open>options.disableNativeCrashReporting\<close> is
  read whether or not the client is initialised.\<close>

definition unlessNativeDisabled :: "clientWorld \<Rightarrow> clientCall \<Rightarrow> client \<Rightarrow> js_error option \<times> client" where
  "unlessNativeDisabled cw e c =
     (case options c of
        None \<Rightarrow> (Some TypeError, c)
      | Some ops \<Rightarrow> if \<not> disableNativeCrashReporting ops then bridgeCall cw e c else (None, c))"

definition clientAddTag :: "clientWorld \<Rightarrow> string list \<Rightarrow> client \<Rightarrow> js_error option \<times> client" where
  "clientAddTag cw ts c =
     (let c1 = c\<lparr>currentTags := fold setAdd ts (currentTags c)\<rparr> in
      case whenAvailable (crashReportingAvailable ''addTags'' c1) (crashReporter_addTags ts) of
        (Some x, c2) \<Rightarrow> (Some x, c2)
      | (None, c2) \<Rightarrow> unlessNativeDisabled cw (RaygunNativeBridge_setTags (currentTags c2)) c2)"

definition clientUserDefaults :: obj where
  "clientUserDefaults =
     [(''firstName'', JStr ''''), (''fullName'', JStr ''''), (''email'', JStr ''''),
      (''isAnonymous'', JBool True)]"

definition clientSetUser :: "clientWorld \<Rightarrow> userArg \<Rightarrow> client \<Rightarrow> js_error option \<times> client" where
  "clientSetUser cw u c =
     (let (source, c0) =
            (case u of
               UString str \<Rightarrow>
                 if str \<noteq> []
                 then ([(''identifier'', JStr str), (''isAnonymous'', JBool True)], c)
                 else ([(''identifier'', JStr (''anonymous-'' @ getDeviceBasedId cw)),
                        (''isAnonymous'', JBool True)],
                       emit Utils_getDeviceBasedId c)
             | UObject ob \<Rightarrow> (ob, c)
             | UUndefined \<Rightarrow> ([], c));
          userObj = assign clientUserDefaults source;
          c1 = c0\<lparr>currentUser := userObj\<rparr>
      in case whenAvailable (crashReportingAvailable ''setUser'' c1) (crashReporter_setUser userObj) of
           (Some x, c2) \<Rightarrow> (Some x, c2)
         | (None, c2) \<Rightarrow>
             (case whenAvailable (realUserMonitoringAvailable ''setUser'' c2)
                     (realUserMonitor_setUser userObj) of
                (Some x, c3) \<Rightarrow> (Some x, c3)
              | (None, c3) \<Rightarrow> unlessNativeDisabled cw (RaygunNativeBridge_setUser userObj) c3))"

definition clientRecordBreadcrumb :: "string \<Rightarrow> obj option \<Rightarrow> client \<Rightarrow> js_error option \<times> client" where
  "clientRecordBreadcrumb msg details c =
     whenAvailable (crashReportingAvailable ''recordBreadcrumb'' c)
       (crashReporter_recordBreadcrumb msg details)"

definition clientAddCustomData :: "jsval \<Rightarrow> client \<Rightarrow> js_error option \<times> client" where
  "clientAddCustomData cd c =
     whenAvailable (crashReportingAvailable ''addCustomData'' c) (crashReporter_addCustomData cd)"

definition clientUpdateCustomData :: "(obj \<Rightarrow> obj) \<Rightarrow> client \<Rightarrow> js_error option \<times> client" where
  "clientUpdateCustomData updater c =
     whenAvailable (crashReportingAvailable ''updateCustomData'' c)
       (crashReporter_updateCustomData updater)"

definition setMaxReportsStoredOnDevice :: "int \<Rightarrow> client \<Rightarrow> js_error option \<times> client" where
  "setMaxReportsStoredOnDevice n c =
     whenAvailable (crashReportingAvailable ''setCrashReportCacheSize'' c)
       (crashReporter_setMaxReportsStoredOnDevice n)"

definition sendRUMTimingEvent :: "string \<Rightarrow> string \<Rightarrow> int \<Rightarrow> client \<Rightarrow> js_error option \<times> client" where
  "sendRUMTimingEvent eventType nm durationMs c =
     whenAvailable (realUserMonitoringAvailable ''sendRUMTimingEvent'' c)
       (realUserMonitor_sendCustomRUMEvent eventType nm durationMs)"

text \<open>
  \<open>sendError(error, ...params)\<close>. \<open>tags.length\<close> is the number of elements of an
  array, the number of characters of a string, the \<open>length\<close> property of an object, and
  undefined for every other value. The spread \<open>...tags\<close> gives the elements of an array
  or the characters of a string, and throws on an object, which is not iterable. The
  tags spread from an array are the strings among its elements, the parameter being a
  \<open>string[]\<close>.
\<close>

definition spreadTags :: "jsval \<Rightarrow> js_error + string list" where
  "spreadTags v =
     (case v of
        JArr xs \<Rightarrow> Inr (concat (map (\<lambda>x. case x of JStr t \<Rightarrow> [t] | _ \<Rightarrow> []) xs))
      | JStr t \<Rightarrow> Inr (map (\<lambda>ch. [ch]) t)
      | _ \<Rightarrow> Inl TypeError)"

definition hasLength :: "jsval \<Rightarrow> bool" where
  "hasLength v =
     (case v of
        JArr xs \<Rightarrow> xs \<noteq> []
      | JStr t \<Rightarrow> t \<noteq> []
      | JObj kvs \<Rightarrow> truthy (getProp kvs ''length'')
      | _ \<Rightarrow> False)"

definition param :: "jsval list \<Rightarrow> nat \<Rightarrow> jsval" where
  "param params i = (if i < length params then params ! i else JUndefined)"

definition isArray :: "jsval \<Rightarrow> bool" where
  "isArray v = (case v of JArr xs \<Rightarrow> True | _ \<Rightarrow> False)"

definition sendError ::
  "clientWorld \<Rightarrow> ErrorObject option \<Rightarrow> jsval list \<Rightarrow> client \<Rightarrow> js_error option \<times> client" where
  "sendError cw error params c =
     (case crashReportingAvailable ''sendError'' c of
        (Inl x, c1) \<Rightarrow> (Some x, c1)
      | (Inr False, c1) \<Rightarrow> (None, c1)
      | (Inr True, c1) \<Rightarrow>
          (let (cd, tgs) =
                 (if length params = 1 \<and> isArray (param params 0)
                  then (JNull, param params 0) else (param params 0, param params 1));
               (e2, c2) = (if truthy cd then clientAddCustomData cd c1 else (None, c1))
           in case e2 of
                Some x \<Rightarrow> (Some x, c2)
              | None \<Rightarrow>
                  (let (e3, c3) =
                         (if truthy tgs \<and> hasLength tgs
                          then (case spreadTags tgs of
                                  Inl x \<Rightarrow> (Some x, c2)
                                | Inr ts \<Rightarrow> clientAddTag cw ts c2)
                          else (None, c2))
                   in case e3 of
                        Some x \<Rightarrow> (Some x, c3)
                      | None \<Rightarrow> (None, emit (crashReporter_processUnhandledError error) c3))))"

section \<open>Histories\<close>

text \<open>
  \<open>generatePayload\<close> is an async function: while it awaits the environment lookup,
  other code of the application runs before it goes on. \<open>during\<close> is what that code
  does to the state; with \<open>during = id\<close> this is \<open>generatePayload\<close>. Without the
  lookup there is no await, and the object is built at once.
\<close>

definition suspends :: "world \<Rightarrow> bool" where
  "suspends w =
     (OS w = ''android''
      \<and> (case Rg4rn w of None \<Rightarrow> False | Some b \<Rightarrow> hasGetEnvironmentInfo b))"

definition generatePayloadDuring ::
  "world \<Rightarrow> answers \<Rightarrow> ErrorObject \<Rightarrow> StackFrame list \<Rightarrow> Session \<Rightarrow> (state \<Rightarrow> state) \<Rightarrow> state
     \<Rightarrow> (js_error + addr CrashReportPayload) \<times> state" where
  "generatePayloadDuring w ans error stackFrames session during s =
     (let cap = capture session in
      case environmentDetails w ans s of
        (Inl e, s1) \<Rightarrow> (Inl e, s1)
      | (Inr env, s1) \<Rightarrow>
          (let s2 = (if suspends w then during s1 else s1)
           in (buildPayload w ans error stackFrames cap env s2, s2)))"

text \<open>
  The calls an application makes, one after the other; each runs to its end, and an
  exception it throws is the caller's to catch: the state stays as the call left it.
\<close>

datatype operation =
    AddTag "string list"
  | SetUser userArg
  | AddCustomData obj
  | UpdateCustomData "obj \<Rightarrow> updaterRun"
  | RecordBreadcrumb int string "obj option"
  | ClearSession
  | ProcessUnhandledError answers "ErrorObject option" bool

fun perform :: "world \<Rightarrow> operation \<Rightarrow> state \<Rightarrow> state" where
  "perform w (AddTag ts) s = snd (addTag w ts s)"
| "perform w (SetUser u) s = snd (setUser w u s)"
| "perform w (AddCustomData cd) s = snd (addCustomData w cd s)"
| "perform w (UpdateCustomData updater) s = snd (updateCustomData w updater s)"
| "perform w (RecordBreadcrumb time msg details) s = snd (recordBreadcrumb w time msg details s)"
| "perform w ClearSession s = clearSession s"
| "perform w (ProcessUnhandledError ans error isFatal) s =
     snd (processUnhandledError w ans error isFatal s)"

definition run :: "world \<Rightarrow> operation list \<Rightarrow> state \<Rightarrow> state" where
  "run w ops s = fold (perform w) ops s"

fun isUpdateCustomData :: "operation \<Rightarrow> bool" where
  "isUpdateCustomData (UpdateCustomData updater) = True"
| "isUpdateCustomData _ = False"

fun isClearSession :: "operation \<Rightarrow> bool" where
  "isClearSession ClearSession = True"
| "isClearSession _ = False"

text \<open>The calls that hand a report to a transport.\<close>

fun isTransmission :: "call \<Rightarrow> bool" where
  "isTransmission (Rg4rn_sendCrashReport p k) = True"
| "isTransmission (sendCrashReport p k) = True"
| "isTransmission _ = False"

definition transmissions :: "call list \<Rightarrow> call list" where
  "transmissions cs = filter isTransmission cs"

text \<open>How often a client has asked \<open>Utils\<close> for the device's identifier.\<close>

fun isSynthesis :: "clientCall \<Rightarrow> bool" where
  "isSynthesis Utils_getDeviceBasedId = True"
| "isSynthesis _ = False"

definition synthesized :: "client \<Rightarrow> nat" where
  "synthesized c = length (filter isSynthesis (clientCalls c))"

section \<open>Example inputs\<close>

text \<open>
  A production build on iOS without the native module, initialised with the default
  options; the raw frame and the error of the specification's examples; a frame of
  React Native's own message queue.
\<close>

definition exampleFrame :: StackFrame where
  "exampleFrame =
     \<lparr>file' = Some ''/data/app/MyApp.app/main.jsbundle'',
      methodName = ''foo(address at 12:3)'', lineNumber = Some 5, column = Some 3\<rparr>"

definition internalFrame :: StackFrame where
  "internalFrame =
     \<lparr>file' = Some ''/node_modules/react-native/Libraries/BatchedBridge/MessageQueue.js'',
      methodName = ''callFunction'', lineNumber = Some 366, column = Some 41\<rparr>"

definition exampleWorld :: world where
  "exampleWorld =
     \<lparr>OS = ''ios'', DEV = False, Rg4rn = None, uuidv4 = (\<lambda>n. ''uuid-'' @ showNat n),
      clientVersion = ''1.0.0''\<rparr>"

definition exampleOptions :: RaygunClientOptions where
  "exampleOptions =
     \<lparr>apiKey = ''key'', version = [], enableNative = True, enableRUM = False,
      enableNetworkMonitoring = True, ignoreURLs = [], onBeforeSend = NotSet\<rparr>"

definition exampleAnswers :: answers where
  "exampleAnswers =
     \<lparr>parseErrorStack = [exampleFrame, internalFrame], symbolicateStackTrace = Inr None,
      getEnvironmentInfo = Inr [], now = 1000, getTimezoneOffset = 0, transport = None\<rparr>"

definition exampleError :: ErrorObject where
  "exampleError =
     \<lparr>name = Some ''Error'', message = Some ''boom'', stack = Some ''Error: boom'',
      toString = ''Error: boom''\<rparr>"

definition exampleState :: state where
  "exampleState = snd (init exampleWorld False exampleOptions loaded)"

text \<open>An Android device with the native module, and the module state after \<open>init\<close>
  there.\<close>

definition exampleBridge :: bridge where
  "exampleBridge =
     \<lparr>initIsFunction = True, hasGetEnvironmentInfo = True, fails = (\<lambda>c. False)\<rparr>"

definition androidWorld :: world where
  "androidWorld = exampleWorld\<lparr>OS := ''android'', Rg4rn := Some exampleBridge\<rparr>"

definition androidState :: state where
  "androidState = snd (init androidWorld False exampleOptions loaded)"

text \<open>The payload built for the example error in the example state, and session
  mutations made after it.\<close>

definition exampleBuild :: "(js_error + addr CrashReportPayload) \<times> state" where
  "exampleBuild =
     generatePayload exampleWorld exampleAnswers exampleError [] (curSession exampleState)
       exampleState"

definition laterMutations :: "operation list" where
  "laterMutations =
     [AddTag [''late''], AddCustomData [(''a'', JBool True)],
      RecordBreadcrumb 2000 ''tapped'' None, ClearSession, AddTag [''fresh'']]"

definition inPlaceUpdater :: "obj \<Rightarrow> updaterRun" where
  "inPlaceUpdater d = \<lparr>inputAfter = setProp ''late'' (JBool True) d, returned = None\<rparr>"

text \<open>
  Three before-send handlers: one that tries to overwrite \<open>OccurredOn\<close> and
  \<open>Details.Error.Message\<close> and answers true, one that answers 0, one that answers
  true; and the module states after \<open>init\<close> with each.
\<close>

definition tamperingHandler :: "addr CrashReportPayload \<Rightarrow> filterRun" where
  "tamperingHandler payload =
     \<lparr>writes = [SetProperty (\<lambda>p. p\<lparr>OccurredOn := 0\<rparr>),
                SetNested (\<lambda>d. d\<lparr>Error := (Error d)\<lparr>Message := ''tampered''\<rparr>\<rparr>)],
      answer = Inr (JBool True)\<rparr>"

definition rejectingHandler :: "addr CrashReportPayload \<Rightarrow> filterRun" where
  "rejectingHandler payload = \<lparr>writes = [], answer = Inr (JNum 0)\<rparr>"

definition acceptingHandler :: "addr CrashReportPayload \<Rightarrow> filterRun" where
  "acceptingHandler payload = \<lparr>writes = [], answer = Inr (JBool True)\<rparr>"

definition stateWith :: "world \<Rightarrow> (addr CrashReportPayload \<Rightarrow> filterRun) \<Rightarrow> state" where
  "stateWith w handler =
     snd (init w False (exampleOptions\<lparr>onBeforeSend := Handler handler\<rparr>) loaded)"

text \<open>A device on which \<open>RaygunNativeBridge\<close> exists.\<close>

definition exampleClientWorld :: clientWorld where
  "exampleClientWorld = \<lparr>RaygunNativeBridge = True, getDeviceBasedId = ''device-1''\<rparr>"

text \<open>
  An iOS device with the native module: the module state after \<open>init\<close> with the
  default options, and after \<open>init\<close> with \<open>enableNative: false\<close>. An updater that
  returns a new object with one more key.
\<close>

definition bridgeWorld :: world where
  "bridgeWorld = exampleWorld\<lparr>Rg4rn := Some exampleBridge\<rparr>"

definition nativeState :: state where
  "nativeState = snd (init bridgeWorld False exampleOptions loaded)"

definition disabledState :: state where
  "disabledState = snd (init bridgeWorld False (exampleOptions\<lparr>enableNative := False\<rparr>) loaded)"

definition copyingUpdater :: "obj \<Rightarrow> updaterRun" where
  "copyingUpdater d = \<lparr>inputAfter = d, returned = Some (assign d [(''a'', JBool True)])\<rparr>"

text \<open>
  An Android device without the native module; a development build whose
  symbolication rejects; a session whose user has the field \<open>email: null\<close>.
\<close>

definition androidWithoutModule :: world where
  "androidWithoutModule = exampleWorld\<lparr>OS := ''android''\<rparr>"

definition developmentWorld :: world where
  "developmentWorld = exampleWorld\<lparr>DEV := True\<rparr>"

definition rejectedAnswers :: answers where
  "rejectedAnswers = exampleAnswers\<lparr>symbolicateStackTrace := Inl Rejected\<rparr>"

definition nullEmailState :: state where
  "nullEmailState =
     perform bridgeWorld
       (SetUser (UObject [(''identifier'', JStr ''bob''), (''email'', JNull)])) nativeState"

text \<open>Calls made after a fatal error has been processed, none of them \<open>clearSession\<close>.\<close>

definition afterFatal :: "operation list" where
  "afterFatal = [AddTag [''a''], ProcessUnhandledError exampleAnswers (Some exampleError) False]"

section \<open>Stack-trace normalization in production mode\<close>

text \<open>
  C1. In production mode the pipeline is to drop the frames that match the internal
  pattern and to strip the "(address at ...)" suffix from \<open>methodName\<close>. Processing
  the example error, whose parsed stack is the specification's frame followed by a
  frame of \<open>MessageQueue.js\<close>, sends a report whose stack trace still has both frames,
  the first with its file path rewritten and its method name
  \<open>foo(address at 12:3)\<close> as it was: \<open>filterOutReactFrames\<close> and \<open>noAddressAt\<close> are
  applied to an empty array only. Applied to the cleaned frames they give what the
  specification describes.
\<close>

theorem C1_production_keeps_internal_frames_and_address_suffix:
  "(case fst (processUnhandledError exampleWorld exampleAnswers (Some exampleError) False
               exampleState) of
      Sent p \<Rightarrow>
        map FileName (StackTrace (Error (Details p))) =
          [Some ''file://reactnative.local/main.jsbundle'',
           Some ''/node_modules/react-native/Libraries/BatchedBridge/MessageQueue.js'']
        \<and> map MethodName (StackTrace (Error (Details p))) =
          [''foo(address at 12:3)'', ''callFunction'']
    | _ \<Rightarrow> False)
   \<and> map noAddressAt (filter filterOutReactFrames (cleanFilePath [exampleFrame, internalFrame])) =
       [\<lparr>file' = Some ''file://reactnative.local/main.jsbundle'', methodName = ''foo'',
         lineNumber = Some 5, column = Some 3\<rparr>]"
  by code_simp

subsection \<open>The two functions on their own\<close>

lemma indexOf_None: "indexOf pat s = None \<longleftrightarrow> \<not> sublist pat s"
  by (induction s) (auto simp: sublist_Cons_right)

lemma indexOf_take:
  assumes "pat \<noteq> []" and "indexOf pat s = Some n"
  shows "\<not> sublist pat (take n s)"
  using assms(2)
proof (induction s arbitrary: n)
  case Nil
  then show ?case using assms(1) by (simp split: if_splits)
next
  case (Cons c cs)
  show ?case
  proof (cases "prefix pat (c # cs)")
    case True
    with Cons.prems have "n = 0" by simp
    then show ?thesis using assms(1) by simp
  next
    case False
    with Cons.prems obtain m where m: "indexOf pat cs = Some m" and n: "n = Suc m"
      by auto
    have "\<not> sublist pat (take m cs)" using Cons.IH[OF m] .
    moreover have "\<not> prefix pat (c # take m cs)"
    proof
      assume "prefix pat (c # take m cs)"
      moreover have "prefix (c # take m cs) (c # cs)" by (simp add: take_is_prefix)
      ultimately have "prefix pat (c # cs)" by (rule prefix_order.trans)
      with False show False by simp
    qed
    ultimately show ?thesis using n by (simp add: sublist_Cons_right)
  qed
qed

lemma sublist_trim: "sublist (trim s) s"
proof -
  let ?t = "dropWhile isWhiteSpace s"
  have "rev (takeWhile isWhiteSpace (rev ?t) @ dropWhile isWhiteSpace (rev ?t)) = rev (rev ?t)"
    by (simp only: takeWhile_dropWhile_id)
  then have "rev (dropWhile isWhiteSpace (rev ?t)) @ rev (takeWhile isWhiteSpace (rev ?t)) = ?t"
    by (simp only: rev_append rev_rev_ident)
  then have "?t = trim s @ rev (takeWhile isWhiteSpace (rev ?t))"
    by (simp only: trim_def)
  then have "prefix (trim s) ?t" by (rule prefixI)
  then have "sublist (trim s) ?t" by (rule prefix_imp_sublist)
  moreover have "sublist ?t s" by (rule suffix_imp_sublist) (rule suffix_dropWhile)
  ultimately show ?thesis by (rule sublist_order.order.trans)
qed

text \<open>What \<open>noAddressAt\<close> returns has no "(address at" in its method name, and a frame
  whose method name has none is returned as it is.\<close>

lemma noAddressAt_strips: "indexOf ''(address at'' (methodName (noAddressAt frame)) = None"
proof (cases "indexOf ''(address at'' (methodName frame)")
  case None
  then show ?thesis by (simp add: noAddressAt_def)
next
  case (Some pos)
  have "\<not> sublist ''(address at'' (take pos (methodName frame))"
    by (rule indexOf_take[OF _ Some]) simp
  then have "\<not> sublist ''(address at'' (trim (take pos (methodName frame)))"
    using sublist_trim sublist_order.order.trans by blast
  then show ?thesis using Some by (simp add: noAddressAt_def indexOf_None)
qed

lemma noAddressAt_unchanged:
  "indexOf ''(address at'' (methodName frame) = None \<Longrightarrow> noAddressAt frame = frame"
  by (simp add: noAddressAt_def)

section \<open>What each operation leaves of the state\<close>

lemma nativeCall_state: "\<exists>cs. snd (nativeCall w c s) = s\<lparr>calls := calls s @ cs\<rparr>"
proof (cases "Rg4rn w")
  case None
  have "s = s\<lparr>calls := calls s @ []\<rparr>" by simp
  with None show ?thesis unfolding nativeCall_def by (metis option.simps(4) snd_conv)
next
  case (Some b)
  then show ?thesis unfolding nativeCall_def by auto
qed

lemma nativeCall_fields [simp]:
  "sets (snd (nativeCall w c s)) = sets s"
  "objs (snd (nativeCall w c s)) = objs s"
  "arrs (snd (nativeCall w c s)) = arrs s"
  "nextAddr (snd (nativeCall w c s)) = nextAddr s"
  "curSession (snd (nativeCall w c s)) = curSession s"
  "GlobalOptions (snd (nativeCall w c s)) = GlobalOptions s"
  "canEnableNative (snd (nativeCall w c s)) = canEnableNative s"
  "uuidCalls (snd (nativeCall w c s)) = uuidCalls s"
  by (simp_all add: nativeCall_def split: option.splits)

lemma environmentDetails_state:
  "\<exists>cs. snd (environmentDetails w ans s) = s\<lparr>calls := calls s @ cs\<rparr>"
  unfolding environmentDetails_def
  by (auto split: option.splits intro: exI[of _ "[]"] exI[of _ "[Rg4rn_getEnvironmentInfo]"])

lemma generatePayload_state:
  "\<exists>cs. snd (generatePayload w ans e fr sess s) = s\<lparr>calls := calls s @ cs\<rparr>"
  using environmentDetails_state[of w ans s]
  unfolding generatePayload_def Let_def
  by (auto split: prod.splits sum.splits)

lemma deliver_state:
  "\<exists>cs. snd (deliver w ans p s) = s\<lparr>calls := calls s @ cs\<rparr>"
proof (cases "GlobalOptions s")
  case None
  then show ?thesis unfolding deliver_def by (auto intro: exI[of _ "[]"])
next
  case (Some options)
  show ?thesis
  proof (cases "canEnableNative s")
    case True
    with Some show ?thesis
      using nativeCall_state[of w "Rg4rn_sendCrashReport (stringify s p) (apiKey options)" s]
      unfolding deliver_def by (auto split: prod.splits option.splits)
  next
    case False
    with Some show ?thesis unfolding deliver_def by auto
  qed
qed

lemma filterAndDeliver_state:
  "\<exists>cs. snd (filterAndDeliver w ans p s) = s\<lparr>calls := calls s @ cs\<rparr>"
proof -
  have nil: "\<exists>cs. s = s\<lparr>calls := calls s @ cs\<rparr>" by (auto intro: exI[of _ "[]"])
  show ?thesis
    unfolding filterAndDeliver_def Let_def
    using deliver_state nil
    by (auto split: option.splits beforeSend.splits sum.splits)
qed

lemma processUnhandledError_state:
  "\<exists>b cs. snd (processUnhandledError w ans error isFatal s)
            = (addFatal b s)\<lparr>calls := calls s @ cs\<rparr>"
proof -
  have noFatal: "addFatal False s = s" by (simp add: addFatal_def)
  have calls_addFatal: "\<And>b. calls (addFatal b s) = calls s" by (simp add: addFatal_def)
  let ?log = "s\<lparr>calls := calls s @ [console_log ''Unrecognized error occurred'']\<rparr>"
  have dropped: "\<exists>b cs. ?log = (addFatal b s)\<lparr>calls := calls s @ cs\<rparr>"
    using noFatal by (metis (full_types))
  have same: "\<exists>b cs. s = (addFatal b s)\<lparr>calls := calls s @ cs\<rparr>"
    by (rule exI[of _ False], rule exI[of _ "[]"]) (simp add: noFatal)
  show ?thesis
  proof (cases error)
    case None
    then show ?thesis using dropped by (simp add: processUnhandledError_def)
  next
    case (Some e)
    show ?thesis
    proof (cases "orEmpty (stack e) = []")
      case True
      with Some show ?thesis using dropped by (simp add: processUnhandledError_def)
    next
      case False
      show ?thesis
      proof (cases "cleanedStackFrames w ans")
        case (Inl x)
        with Some False show ?thesis using same by (simp add: processUnhandledError_def)
      next
        case (Inr cleaned)
        let ?s1 = "addFatal isFatal s"
        obtain r s2 where g: "generatePayload w ans e (normalizedStack cleaned) (curSession ?s1) ?s1 = (r, s2)"
          by (cases "generatePayload w ans e (normalizedStack cleaned) (curSession ?s1) ?s1")
        obtain cs1 where s2: "s2 = ?s1\<lparr>calls := calls s @ cs1\<rparr>"
          using generatePayload_state[of w ans e "normalizedStack cleaned" "curSession ?s1" ?s1] g
          by (auto simp: calls_addFatal)
        show ?thesis
        proof (cases r)
          case (Inl x)
          with Some False Inr g s2 show ?thesis
            by (auto simp: processUnhandledError_def Let_def)
        next
          case (Inr payload)
          obtain cs2 where "snd (filterAndDeliver w ans payload s2) = s2\<lparr>calls := calls s2 @ cs2\<rparr>"
            using filterAndDeliver_state by blast
          then have "snd (filterAndDeliver w ans payload s2) = ?s1\<lparr>calls := calls s @ (cs1 @ cs2)\<rparr>"
            using s2 by simp
          with Some False \<open>cleanedStackFrames w ans = Inr cleaned\<close> g Inr show ?thesis
            by (auto simp: processUnhandledError_def Let_def)
        qed
      qed
    qed
  qed
qed

lemma addFatal_fields [simp]:
  "objs (addFatal b s) = objs s"
  "arrs (addFatal b s) = arrs s"
  "nextAddr (addFatal b s) = nextAddr s"
  "curSession (addFatal b s) = curSession s"
  "GlobalOptions (addFatal b s) = GlobalOptions s"
  "canEnableNative (addFatal b s) = canEnableNative s"
  "calls (addFatal b s) = calls s"
  "uuidCalls (addFatal b s) = uuidCalls s"
  by (simp_all add: addFatal_def)

lemma processUnhandledError_fields:
  "objs (snd (processUnhandledError w ans error isFatal s)) = objs s"
  "arrs (snd (processUnhandledError w ans error isFatal s)) = arrs s"
  "nextAddr (snd (processUnhandledError w ans error isFatal s)) = nextAddr s"
  "curSession (snd (processUnhandledError w ans error isFatal s)) = curSession s"
  "GlobalOptions (snd (processUnhandledError w ans error isFatal s)) = GlobalOptions s"
  "canEnableNative (snd (processUnhandledError w ans error isFatal s)) = canEnableNative s"
  using processUnhandledError_state[of w ans error isFatal s] by auto

lemma addTag_fields:
  "sets (snd (addTag w ts s)) = (sets s)(tags (curSession s) := fold setAdd ts (liveTags s))"
  "objs (snd (addTag w ts s)) = objs s"
  "arrs (snd (addTag w ts s)) = arrs s"
  "nextAddr (snd (addTag w ts s)) = nextAddr s"
  "curSession (snd (addTag w ts s)) = curSession s"
  "GlobalOptions (snd (addTag w ts s)) = GlobalOptions s"
  "canEnableNative (snd (addTag w ts s)) = canEnableNative s"
  by (simp_all add: addTag_def liveTags_def Let_def)

lemma setUser_fields:
  "sets (snd (setUser w u s)) = sets s"
  "objs (snd (setUser w u s)) = objs s"
  "arrs (snd (setUser w u s)) = arrs s"
  "nextAddr (snd (setUser w u s)) = nextAddr s"
  "tags (curSession (snd (setUser w u s))) = tags (curSession s)"
  "customData (curSession (snd (setUser w u s))) = customData (curSession s)"
  "breadcrumbs (curSession (snd (setUser w u s))) = breadcrumbs (curSession s)"
  "GlobalOptions (snd (setUser w u s)) = GlobalOptions s"
  "canEnableNative (snd (setUser w u s)) = canEnableNative s"
  by (simp_all add: setUser_def Let_def split: userArg.splits option.splits prod.splits)

lemma addCustomData_fields:
  "sets (snd (addCustomData w cd s)) = sets s"
  "objs (snd (addCustomData w cd s))
     = (objs s)(nextAddr s := assign (assign [] (liveCustomData s)) cd)"
  "arrs (snd (addCustomData w cd s)) = arrs s"
  "nextAddr (snd (addCustomData w cd s)) = nextAddr s + 1"
  "tags (curSession (snd (addCustomData w cd s))) = tags (curSession s)"
  "customData (curSession (snd (addCustomData w cd s))) = nextAddr s"
  "breadcrumbs (curSession (snd (addCustomData w cd s))) = breadcrumbs (curSession s)"
  "GlobalOptions (snd (addCustomData w cd s)) = GlobalOptions s"
  "canEnableNative (snd (addCustomData w cd s)) = canEnableNative s"
  by (simp_all add: addCustomData_def Let_def)

lemma updateCustomData_fields:
  "sets (snd (updateCustomData w updater s)) = sets s"
  "arrs (snd (updateCustomData w updater s)) = arrs s"
  "tags (curSession (snd (updateCustomData w updater s))) = tags (curSession s)"
  "breadcrumbs (curSession (snd (updateCustomData w updater s))) = breadcrumbs (curSession s)"
  "GlobalOptions (snd (updateCustomData w updater s)) = GlobalOptions s"
  "canEnableNative (snd (updateCustomData w updater s)) = canEnableNative s"
  by (simp_all add: updateCustomData_def Let_def split: option.splits)

lemma recordBreadcrumb_fields:
  "sets (snd (recordBreadcrumb w time msg details s)) = sets s"
  "objs (snd (recordBreadcrumb w time msg details s)) = objs s"
  "nextAddr (snd (recordBreadcrumb w time msg details s)) = nextAddr s"
  "tags (curSession (snd (recordBreadcrumb w time msg details s))) = tags (curSession s)"
  "customData (curSession (snd (recordBreadcrumb w time msg details s))) = customData (curSession s)"
  "breadcrumbs (curSession (snd (recordBreadcrumb w time msg details s))) = breadcrumbs (curSession s)"
  "GlobalOptions (snd (recordBreadcrumb w time msg details s)) = GlobalOptions s"
  "canEnableNative (snd (recordBreadcrumb w time msg details s)) = canEnableNative s"
  by (simp_all add: recordBreadcrumb_def Let_def)

lemma clearSession_fields:
  "sets (clearSession s) = (sets s)(nextAddr s := [''React Native''])"
  "objs (clearSession s) = (objs s)(nextAddr s + 1 := [])"
  "arrs (clearSession s) = (arrs s)(nextAddr s + 2 := [])"
  "nextAddr (clearSession s) = nextAddr s + 3"
  "tags (curSession (clearSession s)) = nextAddr s"
  "customData (curSession (clearSession s)) = nextAddr s + 1"
  "breadcrumbs (curSession (clearSession s)) = nextAddr s + 2"
  "GlobalOptions (clearSession s) = GlobalOptions s"
  "canEnableNative (clearSession s) = canEnableNative s"
  by (simp_all add: clearSession_def getCleanSession_def Let_def)

lemma perform_keeps_allocated_objects:
  assumes "\<not> isUpdateCustomData op" and "a < nextAddr s"
  shows "objs (perform w op s) a = objs s a \<and> nextAddr s \<le> nextAddr (perform w op s)"
  using assms
  by (cases op)
     (simp_all add: addTag_fields setUser_fields addCustomData_fields recordBreadcrumb_fields
        clearSession_fields processUnhandledError_fields)

lemma run_keeps_allocated_objects:
  assumes "list_all (\<lambda>op. \<not> isUpdateCustomData op) ops" and "a < nextAddr s"
  shows "objs (run w ops s) a = objs s a \<and> nextAddr s \<le> nextAddr (run w ops s)"
  using assms
proof (induction ops arbitrary: s)
  case Nil
  then show ?case by (simp add: run_def)
next
  case (Cons op ops)
  have step: "objs (perform w op s) a = objs s a" "nextAddr s \<le> nextAddr (perform w op s)"
    using perform_keeps_allocated_objects[of op a s w] Cons.prems by auto
  then have "a < nextAddr (perform w op s)" using Cons.prems by simp
  with Cons.IH[of "perform w op s"] Cons.prems step show ?case
    by (auto simp: run_def)
qed

lemma generatePayloadDuring_id:
  "generatePayloadDuring w ans e frames session id s = generatePayload w ans e frames session s"
  by (simp add: generatePayloadDuring_def generatePayload_def Let_def
      split: prod.splits sum.splits)

section \<open>The payload and the live session\<close>

lemma generatePayload_built:
  assumes "fst (generatePayload w ans e frames session s) = Inr p"
  shows "Tags (Details p) = sets s (tags session)"
    and "UserCustomData (Details p) = customData session"
proof -
  obtain r s1 where env: "environmentDetails w ans s = (r, s1)"
    by (cases "environmentDetails w ans s")
  obtain cs where s1: "s1 = s\<lparr>calls := calls s @ cs\<rparr>"
    using environmentDetails_state[of w ans s] env by auto
  from assms env obtain ed where r: "r = Inr ed"
    and b: "buildPayload w ans e frames (capture session) ed s1 = Inr p"
    by (cases r) (auto simp: generatePayload_def Let_def)
  from b s1 show "Tags (Details p) = sets s (tags session)"
    by (auto simp: buildPayload_def capture_def split: sum.splits option.splits)
  from b show "UserCustomData (Details p) = customData session"
    by (auto simp: buildPayload_def capture_def split: sum.splits option.splits)
qed

lemma stringify_cong:
  assumes "objs s' (UserCustomData (Details p)) = objs s (UserCustomData (Details p))"
  shows "stringify s' p = stringify s p"
  using assms by (simp add: stringify_def)

text \<open>
  C2 (as amended). \<open>generatePayload\<close> takes no copy of the session when it starts. It
  reads the live session: the tags of the payload are those of the session's tag set,
  and \<open>UserCustomData\<close> is the session's custom-data object itself. Once it has
  returned the payload, no later call of \<open>addTag\<close>, \<open>setUser\<close>, \<open>addCustomData\<close>,
  \<open>recordBreadcrumb\<close>, \<open>clearSession\<close> or \<open>processUnhandledError\<close>, in any number and
  order, changes what \<open>JSON.stringify\<close> makes of that payload.
\<close>

theorem C2_mutations_after_the_build_are_not_observed:
  assumes built: "fst (generatePayload w ans e frames (curSession s) s) = Inr p"
    and allocated: "customData (curSession s) < nextAddr s"
    and later: "list_all (\<lambda>op. \<not> isUpdateCustomData op) ops"
  shows "Tags (Details p) = liveTags s
         \<and> UserCustomData (Details p) = customData (curSession s)
         \<and> stringify (run w ops (snd (generatePayload w ans e frames (curSession s) s))) p
             = stringify (snd (generatePayload w ans e frames (curSession s) s)) p"
proof -
  let ?s1 = "snd (generatePayload w ans e frames (curSession s) s)"
  obtain cs where s1: "?s1 = s\<lparr>calls := calls s @ cs\<rparr>"
    using generatePayload_state by blast
  have ref: "UserCustomData (Details p) = customData (curSession s)"
    using generatePayload_built(2)[OF built] .
  have "customData (curSession s) < nextAddr ?s1"
    using allocated s1 by simp
  then have "objs (run w ops ?s1) (customData (curSession s)) = objs ?s1 (customData (curSession s))"
    using run_keeps_allocated_objects[OF later] by blast
  then have "stringify (run w ops ?s1) p = stringify ?s1 p"
    using ref by (intro stringify_cong) simp
  moreover have "Tags (Details p) = liveTags s"
    using generatePayload_built(1)[OF built] by (simp add: liveTags_def)
  ultimately show ?thesis using ref by simp
qed

theorem C2_mutations_after_the_build_witness:
  "\<not> isl (fst exampleBuild)
   \<and> customData (curSession exampleState) < nextAddr exampleState
   \<and> list_all (\<lambda>op. \<not> isUpdateCustomData op) laterMutations
   \<and> liveTags (run exampleWorld laterMutations (snd exampleBuild)) = [''React Native'', ''fresh'']
   \<and> Tags (Details (projr (fst exampleBuild))) = liveTags exampleState
   \<and> UserCustomData (Details (projr (fst exampleBuild))) = customData (curSession exampleState)
   \<and> stringify (run exampleWorld laterMutations (snd exampleBuild)) (projr (fst exampleBuild))
       = stringify (snd exampleBuild) (projr (fst exampleBuild))"
proof -
  have isr: "\<not> isl (fst exampleBuild)" by code_simp
  then have built: "fst (generatePayload exampleWorld exampleAnswers exampleError []
                      (curSession exampleState) exampleState) = Inr (projr (fst exampleBuild))"
    by (simp add: exampleBuild_def)
  have allocated: "customData (curSession exampleState) < nextAddr exampleState" by code_simp
  have later: "list_all (\<lambda>op. \<not> isUpdateCustomData op) laterMutations" by code_simp
  have changed: "liveTags (run exampleWorld laterMutations (snd exampleBuild))
                   = [''React Native'', ''fresh'']" by code_simp
  show ?thesis
    using C2_mutations_after_the_build_are_not_observed[OF built allocated later]
      isr allocated later changed
    by (simp add: exampleBuild_def)
qed

text \<open>
  The claim as stated fails. On Android \<open>generatePayload\<close> awaits the environment
  lookup before it reads the tag set: a tag added to the session while it waits is in
  the payload, although the session had the one tag \<open>React Native\<close> when the
  construction began. And \<open>UserCustomData\<close> is the live object: an updater that
  writes to the object it is handed changes what is serialized from a payload built
  before.
\<close>

theorem C2_mutation_during_the_build_is_observed:
  "liveTags androidState = [''React Native'']
   \<and> (case fst (generatePayloadDuring androidWorld exampleAnswers exampleError []
                  (curSession androidState) (perform androidWorld (AddTag [''late'']))
                  androidState) of
        Inr p \<Rightarrow> Tags (Details p) = [''React Native'', ''late'']
      | Inl e \<Rightarrow> False)
   \<and> UserCustomData (Details (stringify (snd exampleBuild) (projr (fst exampleBuild)))) = []
   \<and> UserCustomData (Details (stringify
         (perform exampleWorld (UpdateCustomData inPlaceUpdater) (snd exampleBuild))
         (projr (fst exampleBuild)))) = [(''late'', JBool True)]"
  by code_simp

section \<open>The before-send handler\<close>

text \<open>
  C3. The payload handed to the before-send handler is to be immutable, nested fields
  included, so that what is transmitted is the payload as built. The example error is
  built into a payload with message \<open>boom\<close>. A handler that assigns to
  \<open>payload.OccurredOn\<close> and to \<open>payload.Details.Error.Message\<close> and answers true
  leaves \<open>OccurredOn\<close> as it was, the payload object being frozen, but the report that
  is transmitted has the message \<open>tampered\<close>: \<open>Object.freeze\<close> does not reach the
  objects below the payload.
\<close>

theorem C3_handler_write_below_Details_is_transmitted:
  "(case fst (generatePayload exampleWorld exampleAnswers exampleError []
               (curSession (stateWith exampleWorld tamperingHandler))
               (stateWith exampleWorld tamperingHandler)) of
      Inr built \<Rightarrow> Message (Error (Details built)) = ''boom'' \<and> OccurredOn built = 1000
    | Inl e \<Rightarrow> False)
   \<and> (case processUnhandledError exampleWorld exampleAnswers (Some exampleError) False
             (stateWith exampleWorld tamperingHandler) of
        (Sent p, s) \<Rightarrow>
          Message (Error (Details p)) = ''tampered'' \<and> OccurredOn p = 1000
          \<and> transmissions (calls s) = [sendCrashReport p ''key'']
      | _ \<Rightarrow> False)"
  by code_simp

lemma environmentDetails_calls:
  "\<exists>cs. snd (environmentDetails w ans s) = s\<lparr>calls := calls s @ cs\<rparr> \<and> transmissions cs = []"
  unfolding environmentDetails_def transmissions_def
  by (auto split: option.splits intro: exI[of _ "[]"] exI[of _ "[Rg4rn_getEnvironmentInfo]"])

lemma generatePayload_calls:
  "\<exists>cs. snd (generatePayload w ans e fr sess s) = s\<lparr>calls := calls s @ cs\<rparr>
        \<and> transmissions cs = []"
  using environmentDetails_calls[of w ans s]
  unfolding generatePayload_def Let_def
  by (auto split: prod.splits sum.splits)

lemma deliver_transmits_once:
  assumes "GlobalOptions s = Some opts" and "Rg4rn w \<noteq> None \<or> \<not> canEnableNative s"
  shows "transmissions (calls (snd (deliver w ans p s))) =
           transmissions (calls s) @
           [if canEnableNative s then Rg4rn_sendCrashReport (stringify s p) (apiKey opts)
            else sendCrashReport p (apiKey opts)]"
  using assms
  by (auto simp: deliver_def nativeCall_def transmissions_def split: option.splits)

text \<open>
  C4 (as amended). Take an error that reaches the before-send step: it is not dropped
  as malformed, the normalization of its stack has not thrown and its payload has been
  built, in a module that \<open>init\<close> has configured (so that the native reporter is enabled
  only where the native module exists). The transmission calls of the occurrence are
  then: none when a handler is configured and its answer is falsy (or it throws);
  exactly one when the handler's answer is truthy, when no handler is set, or when the
  option is not a function. That one call goes to the native reporter when it is
  enabled and to the direct transport otherwise, with the payload as the handler left
  it.
\<close>

theorem C4_filter_decides_the_single_transmission:
  assumes wellFormed: "\<not> malformed (Some e)"
    and cleaned: "cleanedStackFrames w ans = Inr cleaned"
    and built: "fst (generatePayload w ans e (normalizedStack cleaned) (curSession s)
                      (addFatal isFatal s)) = Inr payload"
    and configured: "GlobalOptions s = Some opts"
    and native: "Rg4rn w \<noteq> None \<or> \<not> canEnableNative s"
  shows "transmissions (calls (snd (processUnhandledError w ans (Some e) isFatal s))) =
           transmissions (calls s) @
           map (\<lambda>p. if canEnableNative s
                    then Rg4rn_sendCrashReport
                           (stringify (snd (generatePayload w ans e (normalizedStack cleaned)
                                              (curSession s) (addFatal isFatal s))) p)
                           (apiKey opts)
                    else sendCrashReport p (apiKey opts))
             (case onBeforeSend opts of
                Handler f \<Rightarrow>
                  (case answer (f payload) of
                     Inl x \<Rightarrow> []
                   | Inr v \<Rightarrow> if truthy v then [fold frozenWrite (writes (f payload)) payload]
                             else [])
              | NotAFunction \<Rightarrow> [payload]
              | NotSet \<Rightarrow> [payload])"
proof -
  let ?s1 = "addFatal isFatal s"
  let ?g = "generatePayload w ans e (normalizedStack cleaned) (curSession s) ?s1"
  obtain cs where s2: "snd ?g = ?s1\<lparr>calls := calls s @ cs\<rparr>" and quiet: "transmissions cs = []"
    using generatePayload_calls[of w ans e "normalizedStack cleaned" "curSession s" ?s1] by auto
  obtain s2 where g: "?g = (Inr payload, s2)" using built by (cases ?g) simp
  then have snd_g: "snd ?g = s2" by simp
  have stack: "orEmpty (stack e) \<noteq> []" using wellFormed by (simp add: malformed_def)
  have run: "processUnhandledError w ans (Some e) isFatal s = filterAndDeliver w ans payload (snd ?g)"
    using stack cleaned g by (simp add: processUnhandledError_def Let_def)
  have opts2: "GlobalOptions (snd ?g) = Some opts" using s2 configured by simp
  have native2: "Rg4rn w \<noteq> None \<or> \<not> canEnableNative (snd ?g)" using s2 native by simp
  have can2: "canEnableNative (snd ?g) = canEnableNative s" using s2 by simp
  have before: "transmissions (calls (snd ?g)) = transmissions (calls s)"
    using s2 quiet by (simp add: transmissions_def)
  have sent: "\<And>p. transmissions (calls (snd (deliver w ans p (snd ?g)))) =
           transmissions (calls s) @
           [if canEnableNative s then Rg4rn_sendCrashReport (stringify (snd ?g) p) (apiKey opts)
            else sendCrashReport p (apiKey opts)]"
    using deliver_transmits_once[OF opts2 native2] before can2 by simp
  show ?thesis
    unfolding run
    by (cases "onBeforeSend opts")
       (auto simp: filterAndDeliver_def opts2 Let_def sent before split: sum.splits)
qed

theorem C4_filter_decides_the_single_transmission_witness:
  "\<not> malformed (Some exampleError)
   \<and> transmissions (calls (stateWith androidWorld rejectingHandler)) = []
   \<and> transmissions (calls (snd (processUnhandledError androidWorld exampleAnswers
        (Some exampleError) True (stateWith androidWorld rejectingHandler)))) = []
   \<and> length (transmissions (calls (snd (processUnhandledError androidWorld exampleAnswers
        (Some exampleError) True (stateWith androidWorld acceptingHandler))))) = 1"
proof -
  let ?cleaned = "Some (cleanFilePath [exampleFrame, internalFrame])"
  have wellFormed: "\<not> malformed (Some exampleError)" by code_simp
  have cleaned: "cleanedStackFrames androidWorld exampleAnswers = Inr ?cleaned" by code_simp
  have native: "\<And>h. Rg4rn androidWorld \<noteq> None \<or> \<not> canEnableNative (stateWith androidWorld h)"
    by (simp add: androidWorld_def)
  have configured: "\<And>h. GlobalOptions (stateWith androidWorld h)
                        = Some (exampleOptions\<lparr>onBeforeSend := Handler h\<rparr>)"
    by (simp add: stateWith_def init_def Let_def nativeCall_def split: option.splits prod.splits)
  have isr: "\<And>h. \<not> isl (fst (generatePayload androidWorld exampleAnswers exampleError
                 (normalizedStack ?cleaned) (curSession (stateWith androidWorld h))
                 (addFatal True (stateWith androidWorld h))))"
    by (simp add: stateWith_def init_def Let_def nativeCall_def generatePayload_def
        environmentDetails_def androidWorld_def exampleBridge_def exampleAnswers_def
        buildPayload_def capture_def loaded_def getCleanSession_def emptyState_def
        exampleOptions_def addFatal_def)
  have built: "\<And>h. fst (generatePayload androidWorld exampleAnswers exampleError
                 (normalizedStack ?cleaned) (curSession (stateWith androidWorld h))
                 (addFatal True (stateWith androidWorld h)))
             = Inr (projr (fst (generatePayload androidWorld exampleAnswers exampleError
                 (normalizedStack ?cleaned) (curSession (stateWith androidWorld h))
                 (addFatal True (stateWith androidWorld h)))))"
    using isr by simp
  have none: "transmissions (calls (stateWith androidWorld rejectingHandler)) = []"
    by code_simp
  have none': "transmissions (calls (stateWith androidWorld acceptingHandler)) = []"
    by code_simp
  show ?thesis
    using C4_filter_decides_the_single_transmission[OF wellFormed cleaned
            built[of rejectingHandler] configured[of rejectingHandler] native[of rejectingHandler]]
      C4_filter_decides_the_single_transmission[OF wellFormed cleaned
            built[of acceptingHandler] configured[of acceptingHandler] native[of acceptingHandler]]
      wellFormed none none'
    by (simp add: rejectingHandler_def acceptingHandler_def)
qed

text \<open>
  The claim as stated fails for an occurrence that does not reach the before-send
  step. With no handler configured, a well-formed error is handed to no transport when
  \<open>generatePayload\<close> throws (on Android without the native module, where
  \<open>Rg4rn.getEnvironmentInfo\<close> is read of \<open>undefined\<close>; with a user whose \<open>email\<close> is
  \<open>null\<close>, on which \<open>upperFirst\<close> calls \<open>Object.entries\<close>) or when the symbolication
  of a development build rejects: nothing in \<open>processUnhandledError\<close> catches.
\<close>

theorem C4_no_transmission_when_the_build_throws:
  "(case GlobalOptions (snd (init androidWithoutModule False exampleOptions loaded)) of
      Some opts \<Rightarrow> (case onBeforeSend opts of NotSet \<Rightarrow> True | _ \<Rightarrow> False)
    | None \<Rightarrow> False)
   \<and> \<not> malformed (Some exampleError)
   \<and> fst (processUnhandledError androidWithoutModule exampleAnswers (Some exampleError) False
            (snd (init androidWithoutModule False exampleOptions loaded))) = Failed TypeError
   \<and> transmissions (calls (snd (processUnhandledError androidWithoutModule exampleAnswers
        (Some exampleError) False (snd (init androidWithoutModule False exampleOptions loaded)))))
       = []
   \<and> fst (processUnhandledError developmentWorld rejectedAnswers (Some exampleError) False
            exampleState) = Failed Rejected
   \<and> transmissions (calls (snd (processUnhandledError developmentWorld rejectedAnswers
        (Some exampleError) False exampleState))) = []
   \<and> fst (processUnhandledError bridgeWorld exampleAnswers (Some exampleError) False
            nullEmailState) = Failed TypeError
   \<and> transmissions (calls (snd (processUnhandledError bridgeWorld exampleAnswers
        (Some exampleError) False nullEmailState))) = []"
  by code_simp

section \<open>Malformed errors\<close>

text \<open>
  C7 (as amended). An error is dropped, with one line logged, no payload built and no
  other call made, exactly when the value is falsy or its \<open>stack\<close> is missing or
  empty. A missing \<open>message\<close> alone does not drop it: every error with a stack goes on
  to symbolication and payload construction, and when the payload is built its
  \<open>Message\<close> is the error's message, or the empty string when there is none.
\<close>

theorem C7_dropped_exactly_when_stack_is_missing:
  "(malformed error \<longrightarrow>
      processUnhandledError w ans error isFatal s =
        (Dropped, s\<lparr>calls := calls s @ [console_log ''Unrecognized error occurred'']\<rparr>))
   \<and> (\<not> malformed error \<longrightarrow> fst (processUnhandledError w ans error isFatal s) \<noteq> Dropped)
   \<and> (\<forall>e cleaned payload s2.
         error = Some e \<and> \<not> malformed error \<and> cleanedStackFrames w ans = Inr cleaned
         \<and> generatePayload w ans e (normalizedStack cleaned) (curSession s) (addFatal isFatal s)
             = (Inr payload, s2)
         \<longrightarrow> Message (Error (Details payload)) = orEmpty (message e)
             \<and> processUnhandledError w ans error isFatal s = filterAndDeliver w ans payload s2)"
proof (intro conjI impI allI)
  assume "malformed error"
  then show "processUnhandledError w ans error isFatal s =
        (Dropped, s\<lparr>calls := calls s @ [console_log ''Unrecognized error occurred'']\<rparr>)"
    by (auto simp: malformed_def processUnhandledError_def split: option.splits)
next
  assume wf: "\<not> malformed error"
  then obtain e where e: "error = Some e" and st: "orEmpty (stack e) \<noteq> []"
    by (auto simp: malformed_def split: option.splits)
  have deliver_not_dropped: "\<And>p s'. fst (deliver w ans p s') \<noteq> Dropped"
    by (auto simp: deliver_def nativeCall_def split: option.splits)
  have filter_not_dropped: "\<And>p s'. fst (filterAndDeliver w ans p s') \<noteq> Dropped"
    using deliver_not_dropped
    by (auto simp: filterAndDeliver_def Let_def split: option.splits beforeSend.splits sum.splits)
  show "fst (processUnhandledError w ans error isFatal s) \<noteq> Dropped"
    using e st filter_not_dropped
    by (auto simp: processUnhandledError_def Let_def split: sum.splits prod.splits)
next
  fix e cleaned payload s2
  assume a: "error = Some e \<and> \<not> malformed error \<and> cleanedStackFrames w ans = Inr cleaned
         \<and> generatePayload w ans e (normalizedStack cleaned) (curSession s) (addFatal isFatal s)
             = (Inr payload, s2)"
  then have st: "orEmpty (stack e) \<noteq> []" by (auto simp: malformed_def)
  obtain r s1 where env: "environmentDetails w ans (addFatal isFatal s) = (r, s1)"
    by (cases "environmentDetails w ans (addFatal isFatal s)")
  from a env obtain ed where
    "buildPayload w ans e (normalizedStack cleaned) (capture (curSession s)) ed s1 = Inr payload"
    by (cases r) (auto simp: generatePayload_def Let_def)
  then show "Message (Error (Details payload)) = orEmpty (message e)"
    by (auto simp: buildPayload_def split: sum.splits option.splits)
  show "processUnhandledError w ans error isFatal s = filterAndDeliver w ans payload s2"
    using a st by (simp add: processUnhandledError_def Let_def)
qed

text \<open>An error without a stack is dropped; the same error with a stack and without a
  message is built into a payload and sent.\<close>

theorem C7_dropped_exactly_when_stack_is_missing_witness:
  "malformed (Some (exampleError\<lparr>stack := None\<rparr>))
   \<and> fst (processUnhandledError exampleWorld exampleAnswers
            (Some (exampleError\<lparr>stack := None\<rparr>)) False exampleState) = Dropped
   \<and> \<not> malformed (Some (exampleError\<lparr>message := None\<rparr>))
   \<and> fst (processUnhandledError exampleWorld exampleAnswers
            (Some (exampleError\<lparr>message := None\<rparr>)) False exampleState) \<noteq> Dropped"
proof -
  have m: "malformed (Some (exampleError\<lparr>stack := None\<rparr>))" by code_simp
  have n: "\<not> malformed (Some (exampleError\<lparr>message := None\<rparr>))" by code_simp
  show ?thesis
    using C7_dropped_exactly_when_stack_is_missing[of "Some (exampleError\<lparr>stack := None\<rparr>)"
            exampleWorld exampleAnswers False exampleState]
      C7_dropped_exactly_when_stack_is_missing[of "Some (exampleError\<lparr>message := None\<rparr>)"
            exampleWorld exampleAnswers False exampleState]
      m n
    by simp
qed

text \<open>
  The claim as stated fails: an error whose \<open>message\<close> is missing is not dropped. It
  is built into a payload with an empty \<open>Message\<close>, and that payload is handed to the
  transport.
\<close>

theorem C7_missing_message_is_reported:
  "message (exampleError\<lparr>message := None\<rparr>) = None
   \<and> (case processUnhandledError exampleWorld exampleAnswers
             (Some (exampleError\<lparr>message := None\<rparr>)) False exampleState of
        (Sent p, s) \<Rightarrow>
          Message (Error (Details p)) = []
          \<and> transmissions (calls s) = [sendCrashReport p ''key'']
      | _ \<Rightarrow> False)"
  by code_simp

section \<open>Tags\<close>

lemma set_fold_setAdd: "set (fold setAdd ts xs) = set xs \<union> set ts"
  by (induction ts arbitrary: xs) (auto simp: setAdd_def)

lemma distinct_fold_setAdd: "distinct xs \<Longrightarrow> distinct (fold setAdd ts xs)"
  by (induction ts arbitrary: xs) (auto simp: setAdd_def)

lemma fold_setAdd_known: "set ts \<subseteq> set xs \<Longrightarrow> fold setAdd ts xs = xs"
  by (induction ts arbitrary: xs) (auto simp: setAdd_def)

lemma fold_setAdd_twice: "fold setAdd ts (fold setAdd ts xs) = fold setAdd ts xs"
  by (rule fold_setAdd_known) (simp add: set_fold_setAdd)

lemma liveTags_addTag: "liveTags (snd (addTag w ts s)) = fold setAdd ts (liveTags s)"
  by (simp add: liveTags_def addTag_fields)

lemma liveTags_addTags:
  "set (liveTags (run w (map AddTag tss) s)) = set (liveTags s) \<union> \<Union> (set ` set tss)"
  by (induction tss arbitrary: s) (auto simp: run_def liveTags_addTag set_fold_setAdd)

lemma distinct_addTags:
  "distinct (liveTags s) \<Longrightarrow> distinct (liveTags (run w (map AddTag tss) s))"
  by (induction tss arbitrary: s) (auto simp: run_def liveTags_addTag distinct_fold_setAdd)

lemma currentTags_clientAddTag:
  "currentTags (snd (clientAddTag cw ts c)) = fold setAdd ts (currentTags c)"
  by (auto simp: clientAddTag_def Let_def whenAvailable_def crashReportingAvailable_def
      unlessNativeDisabled_def bridgeCall_def emit_def
      split: prod.splits option.splits sum.splits bool.splits)

lemma currentTags_clientAddTags:
  "set (currentTags (fold (\<lambda>ts c. snd (clientAddTag cw ts c)) tss c))
     = set (currentTags c) \<union> \<Union> (set ` set tss)"
  by (induction tss arbitrary: c) (auto simp: currentTags_clientAddTag set_fold_setAdd)

lemma distinct_clientAddTags:
  "distinct (currentTags c)
     \<Longrightarrow> distinct (currentTags (fold (\<lambda>ts c. snd (clientAddTag cw ts c)) tss c))"
  by (induction tss arbitrary: c) (auto simp: currentTags_clientAddTag distinct_fold_setAdd)

text \<open>
  C9. After any finite sequence of \<open>addTag\<close> calls, each with any number of tags, the
  session's tag set is the union of the tags it had and all the tags passed. So the
  result does not depend on the order of the calls, the \<open>Set\<close> never holds a tag
  twice, and a call repeated at once changes nothing. This holds for the tag set of
  the crash reporter's session and for \<open>currentTags\<close> of \<open>RaygunClient\<close>, whether or
  not a call ends in an exception.
\<close>

theorem C9_tags_are_the_union_of_all_tags_added:
  "set (liveTags (run w (map AddTag tss) s)) = set (liveTags s) \<union> \<Union> (set ` set tss)
   \<and> (mset tss' = mset tss \<longrightarrow>
        set (liveTags (run w (map AddTag tss') s)) = set (liveTags (run w (map AddTag tss) s)))
   \<and> (distinct (liveTags s) \<longrightarrow> distinct (liveTags (run w (map AddTag tss) s)))
   \<and> liveTags (run w [AddTag ts, AddTag ts] s) = liveTags (run w [AddTag ts] s)
   \<and> set (currentTags (fold (\<lambda>ts c. snd (clientAddTag cw ts c)) tss c))
        = set (currentTags c) \<union> \<Union> (set ` set tss)
   \<and> (mset tss' = mset tss \<longrightarrow>
        set (currentTags (fold (\<lambda>ts c. snd (clientAddTag cw ts c)) tss' c))
          = set (currentTags (fold (\<lambda>ts c. snd (clientAddTag cw ts c)) tss c)))
   \<and> (distinct (currentTags c) \<longrightarrow>
        distinct (currentTags (fold (\<lambda>ts c. snd (clientAddTag cw ts c)) tss c)))
   \<and> currentTags (snd (clientAddTag cw ts (snd (clientAddTag cw ts c))))
        = currentTags (snd (clientAddTag cw ts c))"
proof -
  have perm: "mset tss' = mset tss \<Longrightarrow> set tss' = set tss"
    by (metis set_mset_mset)
  have a1: "set (liveTags (run w (map AddTag tss) s)) = set (liveTags s) \<union> \<Union> (set ` set tss)"
    by (rule liveTags_addTags)
  have a2: "mset tss' = mset tss \<longrightarrow>
        set (liveTags (run w (map AddTag tss') s)) = set (liveTags (run w (map AddTag tss) s))"
    using perm by (simp add: liveTags_addTags)
  have a3: "distinct (liveTags s) \<longrightarrow> distinct (liveTags (run w (map AddTag tss) s))"
    by (simp add: distinct_addTags)
  have a4: "liveTags (run w [AddTag ts, AddTag ts] s) = liveTags (run w [AddTag ts] s)"
    by (simp add: run_def liveTags_addTag fold_setAdd_twice)
  have b1: "set (currentTags (fold (\<lambda>ts c. snd (clientAddTag cw ts c)) tss c))
        = set (currentTags c) \<union> \<Union> (set ` set tss)"
    by (rule currentTags_clientAddTags)
  have b2: "mset tss' = mset tss \<longrightarrow>
        set (currentTags (fold (\<lambda>ts c. snd (clientAddTag cw ts c)) tss' c))
          = set (currentTags (fold (\<lambda>ts c. snd (clientAddTag cw ts c)) tss c))"
    using perm by (simp add: currentTags_clientAddTags)
  have b3: "distinct (currentTags c) \<longrightarrow>
        distinct (currentTags (fold (\<lambda>ts c. snd (clientAddTag cw ts c)) tss c))"
    by (simp add: distinct_clientAddTags)
  have b4: "currentTags (snd (clientAddTag cw ts (snd (clientAddTag cw ts c))))
        = currentTags (snd (clientAddTag cw ts c))"
    by (simp add: currentTags_clientAddTag fold_setAdd_twice)
  from a1 a2 a3 a4 b1 b2 b3 b4 show ?thesis by blast
qed

theorem C9_tags_are_the_union_of_all_tags_added_witness:
  "mset [[''b'', ''a''], [''a'', ''c'']] = mset [[''a'', ''c''], [''b'', ''a'']]
   \<and> distinct (liveTags exampleState)
   \<and> liveTags (run exampleWorld (map AddTag [[''a'', ''c''], [''b'', ''a'']]) exampleState)
        = [''React Native'', ''a'', ''c'', ''b'']
   \<and> set (liveTags (run exampleWorld (map AddTag [[''b'', ''a''], [''a'', ''c'']]) exampleState))
        = set (liveTags (run exampleWorld (map AddTag [[''a'', ''c''], [''b'', ''a'']]) exampleState))
   \<and> distinct (liveTags (run exampleWorld (map AddTag [[''a'', ''c''], [''b'', ''a'']]) exampleState))
   \<and> distinct (currentTags (clientLoaded exampleClientWorld))
   \<and> distinct (currentTags (fold (\<lambda>ts c. snd (clientAddTag exampleClientWorld ts c))
        [[''a'', ''c''], [''b'', ''a'']] (clientLoaded exampleClientWorld)))"
proof -
  have p: "mset [[''b'', ''a''], [''a'', ''c'']] = mset [[''a'', ''c''], [''b'', ''a'']]"
    by (simp add: add_mset_commute)
  have d: "distinct (liveTags exampleState)" by code_simp
  have v: "liveTags (run exampleWorld (map AddTag [[''a'', ''c''], [''b'', ''a'']]) exampleState)
        = [''React Native'', ''a'', ''c'', ''b'']" by code_simp
  have dc: "distinct (currentTags (clientLoaded exampleClientWorld))" by code_simp
  show ?thesis
    using C9_tags_are_the_union_of_all_tags_added[of exampleWorld
            "[[''a'', ''c''], [''b'', ''a'']]" exampleState "[[''b'', ''a''], [''a'', ''c'']]"
            "[]" exampleClientWorld "clientLoaded exampleClientWorld"]
      p d v dc
    by simp
qed

section \<open>The Fatal tag\<close>

lemma processUnhandledError_sets:
  assumes "\<not> malformed error" and "cleanedStackFrames w ans = Inr cleaned"
  shows "sets (snd (processUnhandledError w ans error isFatal s)) = sets (addFatal isFatal s)"
proof -
  from assms(1) obtain e where e: "error = Some e" and st: "orEmpty (stack e) \<noteq> []"
    by (auto simp: malformed_def split: option.splits)
  let ?s1 = "addFatal isFatal s"
  obtain r s2 where g: "generatePayload w ans e (normalizedStack cleaned) (curSession ?s1) ?s1 = (r, s2)"
    by (cases "generatePayload w ans e (normalizedStack cleaned) (curSession ?s1) ?s1")
  obtain cs1 where s2: "s2 = ?s1\<lparr>calls := calls ?s1 @ cs1\<rparr>"
    using generatePayload_state[of w ans e "normalizedStack cleaned" "curSession ?s1" ?s1] g
    by auto
  show ?thesis
  proof (cases r)
    case (Inl x)
    with e st assms(2) g s2 show ?thesis by (simp add: processUnhandledError_def Let_def)
  next
    case (Inr payload)
    obtain cs2 where "snd (filterAndDeliver w ans payload s2) = s2\<lparr>calls := calls s2 @ cs2\<rparr>"
      using filterAndDeliver_state by blast
    then have "sets (snd (filterAndDeliver w ans payload s2)) = sets ?s1" using s2 by simp
    with e st assms(2) g Inr show ?thesis by (simp add: processUnhandledError_def Let_def)
  qed
qed

lemma liveTags_addFatal:
  "set (liveTags (addFatal b s)) = set (liveTags s) \<union> (if b then {''Fatal''} else {})"
  by (auto simp: addFatal_def liveTags_def setAdd_def)

lemma liveTags_processUnhandledError:
  "set (liveTags s) \<subseteq> set (liveTags (snd (processUnhandledError w ans error isFatal s)))"
proof -
  obtain b cs where "snd (processUnhandledError w ans error isFatal s)
                       = (addFatal b s)\<lparr>calls := calls s @ cs\<rparr>"
    using processUnhandledError_state by blast
  then have "liveTags (snd (processUnhandledError w ans error isFatal s)) = liveTags (addFatal b s)"
    by (simp add: liveTags_def)
  then show ?thesis by (simp add: liveTags_addFatal)
qed

lemma perform_keeps_tags:
  assumes "\<not> isClearSession op"
  shows "set (liveTags s) \<subseteq> set (liveTags (perform w op s))"
proof (cases op)
  case (AddTag ts)
  then show ?thesis by (simp add: liveTags_addTag set_fold_setAdd)
next
  case (SetUser u)
  then show ?thesis by (simp add: liveTags_def setUser_fields)
next
  case (AddCustomData cd)
  then show ?thesis by (simp add: liveTags_def addCustomData_fields)
next
  case (UpdateCustomData updater)
  then show ?thesis by (simp add: liveTags_def updateCustomData_fields)
next
  case (RecordBreadcrumb time msg details)
  then show ?thesis by (simp add: liveTags_def recordBreadcrumb_fields)
next
  case ClearSession
  with assms show ?thesis by simp
next
  case (ProcessUnhandledError ans error isFatal)
  then show ?thesis using liveTags_processUnhandledError by simp
qed

lemma run_keeps_tags:
  assumes "list_all (\<lambda>op. \<not> isClearSession op) ops"
  shows "set (liveTags s) \<subseteq> set (liveTags (run w ops s))"
  using assms
proof (induction ops arbitrary: s)
  case Nil
  then show ?case by (simp add: run_def)
next
  case (Cons op ops)
  have "set (liveTags s) \<subseteq> set (liveTags (perform w op s))"
    using perform_keeps_tags Cons.prems by simp
  moreover have "set (liveTags (perform w op s)) \<subseteq> set (liveTags (run w ops (perform w op s)))"
    using Cons.IH Cons.prems by simp
  ultimately show ?case by (auto simp: run_def)
qed

lemma liveTags_clearSession: "liveTags (clearSession s) = [''React Native'']"
  by (simp add: liveTags_def clearSession_fields)

text \<open>
  C10 (as amended). When an error flagged as fatal has passed the malformed-error
  guard and the normalization of its stack (in a development build: its symbolication
  has not rejected), \<open>Fatal\<close> is a tag of the live session from then on, whatever
  becomes of the report itself: after any further calls of the module other than
  \<open>clearSession\<close> it is still in the session's tag set, and it is among the \<open>Tags\<close> of
  every payload \<open>generatePayload\<close> builds from the session then, be it for a fatal
  occurrence or not. \<open>clearSession\<close> puts a session in place whose only tag is
  \<open>React Native\<close>.
\<close>

theorem C10_Fatal_stays_until_clearSession:
  assumes wellFormed: "\<not> malformed error"
    and cleaned: "cleanedStackFrames w ans = Inr cleaned"
    and later: "list_all (\<lambda>op. \<not> isClearSession op) ops"
  shows "''Fatal'' \<in> set (liveTags (snd (processUnhandledError w ans error True s)))
         \<and> ''Fatal'' \<in> set (liveTags (run w ops (snd (processUnhandledError w ans error True s))))
         \<and> (\<forall>ans' e' frames b p.
               fst (generatePayload w ans' e' frames
                      (curSession (run w ops (snd (processUnhandledError w ans error True s))))
                      (addFatal b (run w ops (snd (processUnhandledError w ans error True s)))))
                 = Inr p
               \<longrightarrow> ''Fatal'' \<in> set (Tags (Details p)))
         \<and> liveTags (clearSession (run w ops (snd (processUnhandledError w ans error True s))))
             = [''React Native'']"
proof -
  let ?s1 = "snd (processUnhandledError w ans error True s)"
  let ?s2 = "run w ops ?s1"
  have "liveTags ?s1 = liveTags (addFatal True s)"
    using processUnhandledError_sets[OF wellFormed cleaned, of True s]
    by (simp add: liveTags_def processUnhandledError_fields)
  then have first: "''Fatal'' \<in> set (liveTags ?s1)" by (simp add: liveTags_addFatal)
  then have second: "''Fatal'' \<in> set (liveTags ?s2)"
    using run_keeps_tags[OF later, of ?s1 w] by auto
  have third: "''Fatal'' \<in> set (Tags (Details p))"
    if "fst (generatePayload w ans' e' frames (curSession ?s2) (addFatal b ?s2)) = Inr p"
    for ans' e' frames b p
  proof -
    have "Tags (Details p) = sets (addFatal b ?s2) (tags (curSession ?s2))"
      using generatePayload_built(1)[OF that] .
    then have "Tags (Details p) = liveTags (addFatal b ?s2)" by (simp add: liveTags_def)
    then show ?thesis using second by (simp add: liveTags_addFatal)
  qed
  show ?thesis using first second third liveTags_clearSession by blast
qed

text \<open>
  The example error, processed as fatal in the example state and followed by an
  \<open>addTag\<close> and a second, non-fatal occurrence: the session's tags are then
  \<open>React Native\<close>, \<open>Fatal\<close> and \<open>a\<close>, and so are the tags of the payload built from it.
\<close>

theorem C10_Fatal_stays_until_clearSession_witness:
  "\<not> malformed (Some exampleError)
   \<and> list_all (\<lambda>op. \<not> isClearSession op) afterFatal
   \<and> liveTags exampleState = [''React Native'']
   \<and> fst (processUnhandledError exampleWorld exampleAnswers (Some exampleError) True
            exampleState) \<noteq> Dropped
   \<and> ''Fatal'' \<in> set (liveTags (run exampleWorld afterFatal
        (snd (processUnhandledError exampleWorld exampleAnswers (Some exampleError) True
                exampleState))))
   \<and> \<not> isl (fst (generatePayload exampleWorld exampleAnswers exampleError []
        (curSession (run exampleWorld afterFatal
           (snd (processUnhandledError exampleWorld exampleAnswers (Some exampleError) True
                   exampleState))))
        (addFatal False (run exampleWorld afterFatal
           (snd (processUnhandledError exampleWorld exampleAnswers (Some exampleError) True
                   exampleState))))))
   \<and> Tags (Details (projr (fst (generatePayload exampleWorld exampleAnswers exampleError []
        (curSession (run exampleWorld afterFatal
           (snd (processUnhandledError exampleWorld exampleAnswers (Some exampleError) True
                   exampleState))))
        (addFatal False (run exampleWorld afterFatal
           (snd (processUnhandledError exampleWorld exampleAnswers (Some exampleError) True
                   exampleState))))))))
       = [''React Native'', ''Fatal'', ''a'']
   \<and> ''Fatal'' \<in> set (Tags (Details (projr (fst (generatePayload exampleWorld exampleAnswers
        exampleError []
        (curSession (run exampleWorld afterFatal
           (snd (processUnhandledError exampleWorld exampleAnswers (Some exampleError) True
                   exampleState))))
        (addFatal False (run exampleWorld afterFatal
           (snd (processUnhandledError exampleWorld exampleAnswers (Some exampleError) True
                   exampleState)))))))))
   \<and> liveTags (clearSession (run exampleWorld afterFatal
        (snd (processUnhandledError exampleWorld exampleAnswers (Some exampleError) True
                exampleState)))) = [''React Native'']"
proof -
  let ?s = "run exampleWorld afterFatal
        (snd (processUnhandledError exampleWorld exampleAnswers (Some exampleError) True
                exampleState))"
  let ?g = "fst (generatePayload exampleWorld exampleAnswers exampleError []
                   (curSession ?s) (addFatal False ?s))"
  have wellFormed: "\<not> malformed (Some exampleError)" by code_simp
  have cleaned: "cleanedStackFrames exampleWorld exampleAnswers
                   = Inr (Some (cleanFilePath [exampleFrame, internalFrame]))" by code_simp
  have later: "list_all (\<lambda>op. \<not> isClearSession op) afterFatal"
    by (simp add: afterFatal_def)
  have before: "liveTags exampleState = [''React Native'']" by code_simp
  have processed: "fst (processUnhandledError exampleWorld exampleAnswers (Some exampleError)
                          True exampleState) \<noteq> Dropped" by code_simp
  have isr: "\<not> isl ?g" by code_simp
  then have built: "?g = Inr (projr ?g)" by simp
  have tags: "Tags (Details (projr ?g)) = [''React Native'', ''Fatal'', ''a'']" by code_simp
  note main = C10_Fatal_stays_until_clearSession[OF wellFormed cleaned later, of exampleState]
  from main have live: "''Fatal'' \<in> set (liveTags ?s)" by blast
  from main built have inPayload: "''Fatal'' \<in> set (Tags (Details (projr ?g)))" by blast
  from main have cleared: "liveTags (clearSession ?s) = [''React Native'']" by blast
  from wellFormed later before processed live isr tags inPayload cleared
  show ?thesis by blast
qed

text \<open>
  The claim as stated fails for a fatal error whose symbolication rejects in a
  development build: the occurrence ends before the tag is added, and the session's
  tags stay as they were.
\<close>

theorem C10_no_Fatal_when_symbolication_rejects:
  "\<not> malformed (Some exampleError)
   \<and> liveTags exampleState = [''React Native'']
   \<and> fst (processUnhandledError developmentWorld rejectedAnswers (Some exampleError) True
            exampleState) = Failed Rejected
   \<and> liveTags (snd (processUnhandledError developmentWorld rejectedAnswers (Some exampleError)
        True exampleState)) = [''React Native'']"
  by code_simp

section \<open>Propagation to the native reporter\<close>

text \<open>
  C8. Session mutations are to reach the native reporter only when it is active, its
  absence is not to throw into the caller, and the local mutation is to take effect
  either way. \<open>updateCustomData\<close> does so. \<open>addCustomData\<close> calls
  \<open>Rg4rn.setCustomData\<close> without asking \<open>canEnableNative\<close>: with the native reporter
  disabled by \<open>enableNative: false\<close> the call is still made, and without the native
  module it throws a \<open>TypeError\<close> into the caller. \<open>setUser\<close> assigns the session's
  user inside the guarded call: with the native reporter inactive the session keeps
  its old user.
\<close>

theorem C8_addCustomData_calls_the_inactive_native_reporter:
  "canEnableNative disabledState = False
   \<and> calls (snd (addCustomData bridgeWorld [(''a'', JBool True)] disabledState))
       = calls disabledState @ [Rg4rn_setCustomData [(''a'', JBool True)]]
   \<and> calls (snd (updateCustomData bridgeWorld copyingUpdater disabledState)) = calls disabledState
   \<and> liveCustomData (snd (updateCustomData bridgeWorld copyingUpdater disabledState))
       = [(''a'', JBool True)]
   \<and> canEnableNative exampleState = False
   \<and> Rg4rn exampleWorld = None
   \<and> fst (addCustomData exampleWorld [(''a'', JBool True)] exampleState) = Some TypeError
   \<and> fst (updateCustomData exampleWorld copyingUpdater exampleState) = None
   \<and> fst (setUser exampleWorld (UString ''bob'') exampleState) = None
   \<and> user (curSession (snd (setUser exampleWorld (UString ''bob'') exampleState)))
       = [(''identifier'', JStr ''anonymous'')]"
  by code_simp

section \<open>setUser\<close>

lemma emit_fields [simp]:
  "initialized (emit e c) = initialized c"
  "currentTags (emit e c) = currentTags c"
  "currentUser (emit e c) = currentUser c"
  "options (emit e c) = options c"
  "crashReporter (emit e c) = crashReporter c"
  "realUserMonitor (emit e c) = realUserMonitor c"
  "clientCalls (emit e c) = clientCalls c @ [e]"
  by (simp_all add: emit_def)

lemma synthesized_emit [simp]:
  "synthesized (emit e c) = synthesized c + (if isSynthesis e then 1 else 0)"
  by (simp add: synthesized_def)

lemma synthesized_update [simp]:
  "synthesized (c\<lparr>currentUser := u\<rparr>) = synthesized c"
  "synthesized (c\<lparr>currentTags := t\<rparr>) = synthesized c"
  by (simp_all add: synthesized_def)

lemma crashReportingAvailable_keeps:
  "currentUser (snd (crashReportingAvailable n c)) = currentUser c"
  "currentTags (snd (crashReportingAvailable n c)) = currentTags c"
  "synthesized (snd (crashReportingAvailable n c)) = synthesized c"
  by (simp_all add: crashReportingAvailable_def split: option.splits)

lemma realUserMonitoringAvailable_keeps:
  "currentUser (snd (realUserMonitoringAvailable n c)) = currentUser c"
  "currentTags (snd (realUserMonitoringAvailable n c)) = currentTags c"
  "synthesized (snd (realUserMonitoringAvailable n c)) = synthesized c"
  by (simp_all add: realUserMonitoringAvailable_def split: option.splits)

lemma whenAvailable_keeps:
  assumes "\<not> isSynthesis e"
  shows "currentUser (snd (whenAvailable g e)) = currentUser (snd g)"
    and "currentTags (snd (whenAvailable g e)) = currentTags (snd g)"
    and "synthesized (snd (whenAvailable g e)) = synthesized (snd g)"
  using assms
  by (auto simp: whenAvailable_def split: prod.splits sum.splits bool.splits)

lemma unlessNativeDisabled_keeps:
  assumes "\<not> isSynthesis e"
  shows "currentUser (snd (unlessNativeDisabled cw e c)) = currentUser c"
    and "currentTags (snd (unlessNativeDisabled cw e c)) = currentTags c"
    and "synthesized (snd (unlessNativeDisabled cw e c)) = synthesized c"
  using assms
  by (auto simp: unlessNativeDisabled_def bridgeCall_def split: option.splits)

text \<open>What \<open>clientSetUser\<close> leaves of the user and of the synthesis count is what its
  first three lines made of them.\<close>

lemma clientSetUser_tail:
  "currentUser (snd
     (case whenAvailable (crashReportingAvailable ''setUser'' c1) (crashReporter_setUser userObj) of
        (Some x, c2) \<Rightarrow> (Some x, c2)
      | (None, c2) \<Rightarrow>
          (case whenAvailable (realUserMonitoringAvailable ''setUser'' c2)
                  (realUserMonitor_setUser userObj) of
             (Some x, c3) \<Rightarrow> (Some x, c3)
           | (None, c3) \<Rightarrow> unlessNativeDisabled cw (RaygunNativeBridge_setUser userObj) c3)))
     = currentUser c1
   \<and> synthesized (snd
     (case whenAvailable (crashReportingAvailable ''setUser'' c1) (crashReporter_setUser userObj) of
        (Some x, c2) \<Rightarrow> (Some x, c2)
      | (None, c2) \<Rightarrow>
          (case whenAvailable (realUserMonitoringAvailable ''setUser'' c2)
                  (realUserMonitor_setUser userObj) of
             (Some x, c3) \<Rightarrow> (Some x, c3)
           | (None, c3) \<Rightarrow> unlessNativeDisabled cw (RaygunNativeBridge_setUser userObj) c3)))
     = synthesized c1"
proof -
  let ?g1 = "whenAvailable (crashReportingAvailable ''setUser'' c1) (crashReporter_setUser userObj)"
  have g1: "currentUser (snd ?g1) = currentUser c1" "synthesized (snd ?g1) = synthesized c1"
    by (simp_all add: whenAvailable_keeps crashReportingAvailable_keeps)
  show ?thesis
  proof (cases ?g1)
    case (Pair x1 c2)
    note p1 = this
    show ?thesis
    proof (cases x1)
      case (Some x)
      with p1 g1 show ?thesis by simp
    next
      case None
      let ?g2 = "whenAvailable (realUserMonitoringAvailable ''setUser'' c2)
                   (realUserMonitor_setUser userObj)"
      have g2: "currentUser (snd ?g2) = currentUser c1" "synthesized (snd ?g2) = synthesized c1"
        using p1 g1 by (simp_all add: whenAvailable_keeps realUserMonitoringAvailable_keeps)
      show ?thesis
      proof (cases ?g2)
        case (Pair x2 c3)
        with p1 None g2 show ?thesis
          by (cases x2) (simp_all add: unlessNativeDisabled_keeps)
      qed
    qed
  qed
qed

lemma clientSetUser_user:
  "currentUser (snd (clientSetUser cw u c)) =
     assign clientUserDefaults
       (case u of
          UString str \<Rightarrow>
            if str \<noteq> [] then [(''identifier'', JStr str), (''isAnonymous'', JBool True)]
            else [(''identifier'', JStr (''anonymous-'' @ getDeviceBasedId cw)),
                  (''isAnonymous'', JBool True)]
        | UObject ob \<Rightarrow> ob
        | UUndefined \<Rightarrow> [])"
  and clientSetUser_synthesized:
  "synthesized (snd (clientSetUser cw u c)) =
     synthesized c + (if u = UString [] then 1 else 0)"
  using clientSetUser_tail
  by (auto simp: clientSetUser_def Let_def split: userArg.splits)

text \<open>
  C5 (as amended). \<open>setUser("")\<close> installs a user with a synthesized identifier and
  \<open>isAnonymous = true\<close>: the next \<open>uuidv4()\<close> in the crash reporter module,
  \<open>anonymous-\<close> and the device's identifier in \<open>RaygunClient\<close>. \<open>setUser\<close> with a
  non-empty string installs that string as identifier without synthesizing one, with
  \<open>isAnonymous = false\<close> in the crash reporter module and \<open>isAnonymous = true\<close> in
  \<open>RaygunClient\<close>. \<open>setUser(undefined)\<close>, which the parameter type excludes, installs
  the defaults: no identifier, none synthesized. For the crash reporter module this
  is the session's user when the native reporter is enabled.
\<close>

theorem C5_setUser_by_string:
  "(canEnableNative s \<and> Rg4rn w \<noteq> None \<longrightarrow>
      user (curSession (snd (setUser w (UString []) s))) =
        [(''firstName'', JStr []), (''fullName'', JStr []), (''email'', JStr []),
         (''isAnonymous'', JBool True), (''identifier'', JStr (uuidv4 w (uuidCalls s)))]
      \<and> uuidCalls (snd (setUser w (UString []) s)) = uuidCalls s + 1)
   \<and> (canEnableNative s \<and> Rg4rn w \<noteq> None \<and> str \<noteq> [] \<longrightarrow>
      user (curSession (snd (setUser w (UString str) s))) =
        [(''firstName'', JStr []), (''fullName'', JStr []), (''email'', JStr []),
         (''isAnonymous'', JBool False), (''identifier'', JStr str)]
      \<and> uuidCalls (snd (setUser w (UString str) s)) = uuidCalls s)
   \<and> (canEnableNative s \<and> Rg4rn w \<noteq> None \<longrightarrow>
      user (curSession (snd (setUser w UUndefined s))) =
        [(''firstName'', JStr []), (''fullName'', JStr []), (''email'', JStr []),
         (''isAnonymous'', JBool False)]
      \<and> uuidCalls (snd (setUser w UUndefined s)) = uuidCalls s)
   \<and> currentUser (snd (clientSetUser cw (UString []) c)) =
        [(''firstName'', JStr []), (''fullName'', JStr []), (''email'', JStr []),
         (''isAnonymous'', JBool True),
         (''identifier'', JStr (''anonymous-'' @ getDeviceBasedId cw))]
   \<and> synthesized (snd (clientSetUser cw (UString []) c)) = synthesized c + 1
   \<and> (str \<noteq> [] \<longrightarrow>
      currentUser (snd (clientSetUser cw (UString str) c)) =
        [(''firstName'', JStr []), (''fullName'', JStr []), (''email'', JStr []),
         (''isAnonymous'', JBool True), (''identifier'', JStr str)]
      \<and> synthesized (snd (clientSetUser cw (UString str) c)) = synthesized c)
   \<and> currentUser (snd (clientSetUser cw UUndefined c)) =
        [(''firstName'', JStr []), (''fullName'', JStr []), (''email'', JStr []),
         (''isAnonymous'', JBool True)]
   \<and> synthesized (snd (clientSetUser cw UUndefined c)) = synthesized c"
proof -
  have a: "canEnableNative s \<and> Rg4rn w \<noteq> None \<longrightarrow>
      user (curSession (snd (setUser w (UString []) s))) =
        [(''firstName'', JStr []), (''fullName'', JStr []), (''email'', JStr []),
         (''isAnonymous'', JBool True), (''identifier'', JStr (uuidv4 w (uuidCalls s)))]
      \<and> uuidCalls (snd (setUser w (UString []) s)) = uuidCalls s + 1"
    by (auto simp: setUser_def Let_def nativeCall_def assign_def userDefaults_def)
  have b: "canEnableNative s \<and> Rg4rn w \<noteq> None \<and> str \<noteq> [] \<longrightarrow>
      user (curSession (snd (setUser w (UString str) s))) =
        [(''firstName'', JStr []), (''fullName'', JStr []), (''email'', JStr []),
         (''isAnonymous'', JBool False), (''identifier'', JStr str)]
      \<and> uuidCalls (snd (setUser w (UString str) s)) = uuidCalls s"
    by (auto simp: setUser_def Let_def nativeCall_def assign_def userDefaults_def)
  have u: "canEnableNative s \<and> Rg4rn w \<noteq> None \<longrightarrow>
      user (curSession (snd (setUser w UUndefined s))) =
        [(''firstName'', JStr []), (''fullName'', JStr []), (''email'', JStr []),
         (''isAnonymous'', JBool False)]
      \<and> uuidCalls (snd (setUser w UUndefined s)) = uuidCalls s"
    by (auto simp: setUser_def Let_def nativeCall_def assign_def userDefaults_def)
  have ca: "currentUser (snd (clientSetUser cw (UString []) c)) =
        [(''firstName'', JStr []), (''fullName'', JStr []), (''email'', JStr []),
         (''isAnonymous'', JBool True),
         (''identifier'', JStr (''anonymous-'' @ getDeviceBasedId cw))]"
    by (simp add: clientSetUser_user assign_def clientUserDefaults_def)
  have cb: "str \<noteq> [] \<longrightarrow>
      currentUser (snd (clientSetUser cw (UString str) c)) =
        [(''firstName'', JStr []), (''fullName'', JStr []), (''email'', JStr []),
         (''isAnonymous'', JBool True), (''identifier'', JStr str)]
      \<and> synthesized (snd (clientSetUser cw (UString str) c)) = synthesized c"
    by (simp add: clientSetUser_user clientSetUser_synthesized assign_def clientUserDefaults_def)
  have cu: "currentUser (snd (clientSetUser cw UUndefined c)) =
        [(''firstName'', JStr []), (''fullName'', JStr []), (''email'', JStr []),
         (''isAnonymous'', JBool True)]"
    by (simp add: clientSetUser_user assign_def clientUserDefaults_def)
  have cs: "synthesized (snd (clientSetUser cw (UString []) c)) = synthesized c + 1"
    "synthesized (snd (clientSetUser cw UUndefined c)) = synthesized c"
    by (simp_all add: clientSetUser_synthesized)
  from a b u ca cb cu cs show ?thesis by blast
qed

theorem C5_setUser_by_string_witness:
  "canEnableNative nativeState \<and> Rg4rn bridgeWorld \<noteq> None \<and> ''bob'' \<noteq> []
   \<and> user (curSession (snd (setUser bridgeWorld (UString ''bob'') nativeState))) =
        [(''firstName'', JStr []), (''fullName'', JStr []), (''email'', JStr []),
         (''isAnonymous'', JBool False), (''identifier'', JStr ''bob'')]
   \<and> uuidCalls (snd (setUser bridgeWorld (UString ''bob'') nativeState)) = uuidCalls nativeState
   \<and> user (curSession (snd (setUser bridgeWorld (UString []) nativeState))) =
        [(''firstName'', JStr []), (''fullName'', JStr []), (''email'', JStr []),
         (''isAnonymous'', JBool True), (''identifier'', JStr ''uuid-0'')]
   \<and> currentUser (snd (clientSetUser exampleClientWorld (UString ''bob'')
        (clientLoaded exampleClientWorld))) =
        [(''firstName'', JStr []), (''fullName'', JStr []), (''email'', JStr []),
         (''isAnonymous'', JBool True), (''identifier'', JStr ''bob'')]"
proof -
  have n: "canEnableNative nativeState" by code_simp
  have r: "Rg4rn bridgeWorld \<noteq> None" by code_simp
  have i: "uuidv4 bridgeWorld (uuidCalls nativeState) = ''uuid-0''" by code_simp
  show ?thesis
    using C5_setUser_by_string[of nativeState bridgeWorld "''bob''" exampleClientWorld
            "clientLoaded exampleClientWorld"] n r i
    by simp
qed

text \<open>
  The claim as stated fails. \<open>setUser(undefined)\<close> installs a user without an
  identifier, in the crash reporter module with \<open>isAnonymous = false\<close>; and
  \<open>setUser("bob")\<close> of \<open>RaygunClient\<close> installs \<open>isAnonymous = true\<close>.
\<close>

theorem C5_setUser_undefined_has_no_identifier:
  "canEnableNative nativeState
   \<and> fst (setUser bridgeWorld UUndefined nativeState) = None
   \<and> getProp (user (curSession (snd (setUser bridgeWorld UUndefined nativeState)))) ''identifier''
       = JUndefined
   \<and> getProp (user (curSession (snd (setUser bridgeWorld UUndefined nativeState)))) ''isAnonymous''
       = JBool False
   \<and> getProp (currentUser (snd (clientSetUser exampleClientWorld UUndefined
         (clientLoaded exampleClientWorld)))) ''identifier'' = JUndefined
   \<and> getProp (currentUser (snd (clientSetUser exampleClientWorld (UString ''bob'')
         (clientLoaded exampleClientWorld)))) ''isAnonymous'' = JBool True"
  by code_simp

section \<open>RaygunClient before initialisation\<close>

text \<open>
  \<open>init\<close> assigns \<open>options\<close> first and \<open>initialized\<close> last; in between it fails only
  where a call to the native bridge throws, which it does when the bridge is missing.
  So a client that is not initialised has no options yet, or no bridge.
\<close>

lemma clientInit_uninitialised:
  assumes "\<not> initialized c" and "\<not> initialized (snd (clientInit cw ops c))"
  shows "\<not> RaygunNativeBridge cw"
  using assms
  by (auto simp: clientInit_def Let_def bridgeCall_def split: if_splits prod.splits option.splits)

text \<open>
  What the operations do on a client that is not initialised. \<open>recordBreadcrumb\<close>,
  \<open>addCustomData\<close>, \<open>updateCustomData\<close>, \<open>sendError\<close> and \<open>sendRUMTimingEvent\<close> consult
  the guard first: they log the warning, return, and leave everything else as it was.
  \<open>addTag\<close> and \<open>setUser\<close> consult it after they have written to the client's tag set
  and user; the state they leave has the warning logged and no call to a collaborator.
\<close>

lemma operations_before_initialisation:
  assumes uninitialised: "\<not> initialized c"
    and noBridgeYet: "options c = None \<or> \<not> RaygunNativeBridge cw"
  shows "clientRecordBreadcrumb msg details c
           = (None, emit (warn (notInitialisedWarning ''recordBreadcrumb'')) c)
         \<and> clientAddCustomData cd c
           = (None, emit (warn (notInitialisedWarning ''addCustomData'')) c)
         \<and> clientUpdateCustomData updater c
           = (None, emit (warn (notInitialisedWarning ''updateCustomData'')) c)
         \<and> sendError cw error params c
           = (None, emit (warn (notInitialisedWarning ''sendError'')) c)
         \<and> sendRUMTimingEvent eventType nm durationMs c
           = (None, emit (warn (notInitialisedWarning ''sendRUMTimingEvent'')) c)
         \<and> snd (clientAddTag cw ts c)
           = emit (warn (notInitialisedWarning ''addTags''))
               (c\<lparr>currentTags := fold setAdd ts (currentTags c)\<rparr>)
         \<and> snd (clientSetUser cw u c)
           = emit (warn (notInitialisedWarning ''setUser''))
               (emit (warn (notInitialisedWarning ''setUser''))
                  ((if u = UString [] then emit Utils_getDeviceBasedId c else c)
                   \<lparr>currentUser :=
                      assign clientUserDefaults
                        (case u of
                           UString str \<Rightarrow>
                             if str \<noteq> []
                             then [(''identifier'', JStr str), (''isAnonymous'', JBool True)]
                             else [(''identifier'', JStr (''anonymous-'' @ getDeviceBasedId cw)),
                                   (''isAnonymous'', JBool True)]
                         | UObject ob \<Rightarrow> ob
                         | UUndefined \<Rightarrow> [])\<rparr>))"
proof -
  have crash: "\<And>n c'. \<not> initialized c' \<Longrightarrow>
      crashReportingAvailable n c' = (Inr False, emit (warn (notInitialisedWarning n)) c')"
    by (simp add: crashReportingAvailable_def)
  have rum: "\<And>n c'. \<not> initialized c' \<Longrightarrow>
      realUserMonitoringAvailable n c' = (Inr False, emit (warn (notInitialisedWarning n)) c')"
    by (simp add: realUserMonitoringAvailable_def)
  have tail: "\<And>e c'. options c' = options c \<Longrightarrow> snd (unlessNativeDisabled cw e c') = c'"
    using noBridgeYet
    by (auto simp: unlessNativeDisabled_def bridgeCall_def split: option.splits)
  have g1: "clientRecordBreadcrumb msg details c
           = (None, emit (warn (notInitialisedWarning ''recordBreadcrumb'')) c)"
    using uninitialised by (simp add: clientRecordBreadcrumb_def crash whenAvailable_def)
  have g2: "clientAddCustomData cd c
           = (None, emit (warn (notInitialisedWarning ''addCustomData'')) c)"
    using uninitialised by (simp add: clientAddCustomData_def crash whenAvailable_def)
  have g3: "clientUpdateCustomData updater c
           = (None, emit (warn (notInitialisedWarning ''updateCustomData'')) c)"
    using uninitialised by (simp add: clientUpdateCustomData_def crash whenAvailable_def)
  have g4: "sendError cw error params c
           = (None, emit (warn (notInitialisedWarning ''sendError'')) c)"
    using uninitialised by (simp add: sendError_def crash)
  have g5: "sendRUMTimingEvent eventType nm durationMs c
           = (None, emit (warn (notInitialisedWarning ''sendRUMTimingEvent'')) c)"
    using uninitialised by (simp add: sendRUMTimingEvent_def rum whenAvailable_def)
  have g6: "snd (clientAddTag cw ts c)
           = emit (warn (notInitialisedWarning ''addTags''))
               (c\<lparr>currentTags := fold setAdd ts (currentTags c)\<rparr>)"
    using uninitialised by (simp add: clientAddTag_def Let_def crash whenAvailable_def tail)
  have g7: "snd (clientSetUser cw u c)
           = emit (warn (notInitialisedWarning ''setUser''))
               (emit (warn (notInitialisedWarning ''setUser''))
                  ((if u = UString [] then emit Utils_getDeviceBasedId c else c)
                   \<lparr>currentUser :=
                      assign clientUserDefaults
                        (case u of
                           UString str \<Rightarrow>
                             if str \<noteq> []
                             then [(''identifier'', JStr str), (''isAnonymous'', JBool True)]
                             else [(''identifier'', JStr (''anonymous-'' @ getDeviceBasedId cw)),
                                   (''isAnonymous'', JBool True)]
                         | UObject ob \<Rightarrow> ob
                         | UUndefined \<Rightarrow> [])\<rparr>))"
    using uninitialised
    by (cases u) (simp_all add: clientSetUser_def Let_def crash rum whenAvailable_def tail)
  from g1 g2 g3 g4 g5 g6 g7 show ?thesis by blast
qed

text \<open>With no options assigned yet, \<open>addTag\<close> and \<open>setUser\<close> end in a \<open>TypeError\<close>: they
  read \<open>options.disableNativeCrashReporting\<close> whether or not the guard has failed.\<close>

lemma addTag_setUser_throw_without_options:
  assumes "\<not> initialized c" and "options c = None"
  shows "fst (clientAddTag cw ts c) = Some TypeError"
    and "fst (clientSetUser cw u c) = Some TypeError"
  using assms
  by (cases u;
      simp add: clientAddTag_def clientSetUser_def Let_def crashReportingAvailable_def
        realUserMonitoringAvailable_def whenAvailable_def unlessNativeDisabled_def)+

text \<open>
  C6. Every public operation called before a successful initialisation is to log a
  warning and do nothing else: no change of the session state, no call to a
  collaborator, no exception. On the client as it is loaded \<open>recordBreadcrumb\<close> and
  \<open>sendError\<close> do so. \<open>addTag("a")\<close> adds \<open>a\<close> to the client's tags, logs the warning
  that the call failed, and then throws a \<open>TypeError\<close> into its caller;
  \<open>setUser("bob")\<close> replaces the client's user and throws likewise.
\<close>

theorem C6_addTag_before_initialisation_changes_the_tags_and_throws:
  "initialized (clientLoaded exampleClientWorld) = False
   \<and> currentTags (clientLoaded exampleClientWorld) = []
   \<and> currentTags (snd (clientAddTag exampleClientWorld [''a''] (clientLoaded exampleClientWorld)))
       = [''a'']
   \<and> fst (clientAddTag exampleClientWorld [''a''] (clientLoaded exampleClientWorld))
       = Some TypeError
   \<and> getProp (currentUser (clientLoaded exampleClientWorld)) ''identifier''
       = JStr ''anonymous-device-1''
   \<and> getProp (currentUser (snd (clientSetUser exampleClientWorld (UString ''bob'')
        (clientLoaded exampleClientWorld)))) ''identifier'' = JStr ''bob''
   \<and> fst (clientSetUser exampleClientWorld (UString ''bob'') (clientLoaded exampleClientWorld))
       = Some TypeError
   \<and> fst (clientRecordBreadcrumb ''tapped'' None (clientLoaded exampleClientWorld)) = None
   \<and> currentTags (snd (clientRecordBreadcrumb ''tapped'' None (clientLoaded exampleClientWorld)))
       = []
   \<and> fst (sendError exampleClientWorld (Some exampleError) [JArr [JStr ''a'']]
            (clientLoaded exampleClientWorld)) = None
   \<and> currentTags (snd (sendError exampleClientWorld (Some exampleError) [JArr [JStr ''a'']]
        (clientLoaded exampleClientWorld))) = []"
  by code_simp

end
